theory Spec2Isabelle
  imports Main
begin

section \<open>Text: the operations of Python's \<open>str\<close> that app.py uses\<close>

text \<open>
  Strings are taken as ASCII text (one \<open>char\<close> per character).  \<open>lower\<close> is
  \<open>str.lower()\<close>, \<open>strip\<close> is \<open>str.strip()\<close> without argument, \<open>contains sub s\<close> is
  the test \<open>sub in s\<close>, and \<open>replace_empty old s\<close> is \<open>s.replace(old, "")\<close>.
\<close>

definition is_upper :: "char \<Rightarrow> bool" where
  "is_upper c = (let n = (of_char c :: nat) in 65 \<le> n \<and> n \<le> 90)"

definition lower_char :: "char \<Rightarrow> char" where
  "lower_char c = (if is_upper c then char_of ((of_char c :: nat) + 32) else c)"

definition lower :: "string \<Rightarrow> string" where
  "lower s = map lower_char s"

definition is_space :: "char \<Rightarrow> bool" where
  "is_space c = (let n = (of_char c :: nat) in (9 \<le> n \<and> n \<le> 13) \<or> (28 \<le> n \<and> n \<le> 32))"

definition strip :: "string \<Rightarrow> string" where
  "strip s = rev (dropWhile is_space (rev (dropWhile is_space s)))"

fun startswith :: "string \<Rightarrow> string \<Rightarrow> bool" where
  "startswith s [] = True"
| "startswith [] (p # ps) = False"
| "startswith (c # cs) (p # ps) = (c = p \<and> startswith cs ps)"

fun contains :: "string \<Rightarrow> string \<Rightarrow> bool" where
  "contains sub [] = (sub = [])"
| "contains sub (c # cs) = (startswith (c # cs) sub \<or> contains sub cs)"

function replace_empty :: "string \<Rightarrow> string \<Rightarrow> string" where
  "replace_empty old [] = []"
| "replace_empty old (c # cs) =
     (if old \<noteq> [] \<and> startswith (c # cs) old
      then replace_empty old (drop (length old) (c # cs))
      else c # replace_empty old cs)"
  by pat_completeness auto
termination
  by (relation "measure (\<lambda>(old, s). length s)") auto

definition is_digit :: "char \<Rightarrow> bool" where
  "is_digit c = (let n = (of_char c :: nat) in 48 \<le> n \<and> n \<le> 57)"

definition digit_val :: "char \<Rightarrow> nat" where
  "digit_val c = (of_char c :: nat) - 48"

text \<open>\<open>int(s)\<close> on a string of decimal digits.\<close>

definition int_of_digits :: "string \<Rightarrow> nat" where
  "int_of_digits s = foldl (\<lambda>acc c. 10 * acc + digit_val c) 0 s"

datatype py_error = TypeError | ValueError | OverflowError | OperationalError

section \<open>Dates: the part of Python's \<open>datetime\<close> module that app.py uses\<close>

text \<open>
  A \<open>date\<close> is its proleptic Gregorian ordinal (\<open>date.toordinal()\<close>): the difference
  \<open>(d1 - d2).days\<close> is the difference of the ordinals, \<open>d + timedelta(days=n)\<close> adds
  \<open>n\<close>, and dates compare as their ordinals do.  The conversion between ordinals and
  year, month, day follows the module's \<open>_ymd2ord\<close> and \<open>_ord2ymd\<close>.
\<close>

type_synonym date = int

record datetime =
  dt_date :: date
  dt_hour :: nat
  dt_minute :: nat
  dt_second :: nat

definition MAXORDINAL :: int where
  "MAXORDINAL = 3652059"

definition is_leap :: "int \<Rightarrow> bool" where
  "is_leap y = (y mod 4 = 0 \<and> (y mod 100 \<noteq> 0 \<or> y mod 400 = 0))"

definition days_before_year :: "int \<Rightarrow> int" where
  "days_before_year year = (let y = year - 1 in y * 365 + y div 4 - y div 100 + y div 400)"

definition DAYS_IN_MONTH :: "int list" where
  "DAYS_IN_MONTH = [31, 28, 31, 30, 31, 30, 31, 31, 30, 31, 30, 31]"

definition DAYS_BEFORE_MONTH :: "int list" where
  "DAYS_BEFORE_MONTH = [0, 31, 59, 90, 120, 151, 181, 212, 243, 273, 304, 334]"

text \<open>Both take a month between 1 and 12.\<close>

definition days_in_month :: "int \<Rightarrow> int \<Rightarrow> int" where
  "days_in_month year month =
     (if month = 2 \<and> is_leap year then 29 else DAYS_IN_MONTH ! nat (month - 1))"

definition days_before_month :: "int \<Rightarrow> int \<Rightarrow> int" where
  "days_before_month year month =
     DAYS_BEFORE_MONTH ! nat (month - 1) + (if month > 2 \<and> is_leap year then 1 else 0)"

definition ymd2ord :: "int \<Rightarrow> int \<Rightarrow> int \<Rightarrow> int" where
  "ymd2ord year month day = days_before_year year + days_before_month year month + day"

definition ord2ymd :: "int \<Rightarrow> int \<times> int \<times> int" where
  "ord2ymd ordinal =
     (let n = ordinal - 1;
          n400 = n div 146097; n = n mod 146097;
          n100 = n div 36524; n = n mod 36524;
          n4 = n div 1461; n = n mod 1461;
          n1 = n div 365; n = n mod 365;
          year = n400 * 400 + 1 + n100 * 100 + n4 * 4 + n1
      in if n1 = 4 \<or> n100 = 4 then (year - 1, 12, 31)
         else
           let leapyear = (n1 = 3 \<and> (n4 \<noteq> 24 \<or> n100 = 3));
               month = (n + 50) div 32;
               preceding = DAYS_BEFORE_MONTH ! nat (month - 1)
                           + (if month > 2 \<and> leapyear then 1 else 0)
           in if preceding > n
              then let month' = month - 1;
                       preceding' = preceding - (DAYS_IN_MONTH ! nat (month' - 1)
                                    + (if month' = 2 \<and> leapyear then 1 else 0))
                   in (year, month', n - preceding' + 1)
              else (year, month, n - preceding + 1))"

text \<open>\<open>"%0wd" % n\<close> for a natural number: decimal digits, zero-padded to width \<open>w\<close>.\<close>

fun digits_of :: "nat \<Rightarrow> nat \<Rightarrow> string" where
  "digits_of 0 n = []"
| "digits_of (Suc w) n = digits_of w (n div 10) @ [char_of (48 + n mod 10)]"

definition date_isoformat :: "date \<Rightarrow> string" where
  "date_isoformat d =
     (case ord2ymd d of (y, m, dd) \<Rightarrow>
        digits_of 4 (nat y) @ ''-'' @ digits_of 2 (nat m) @ ''-'' @ digits_of 2 (nat dd))"

text \<open>\<open>datetime.isoformat(timespec="seconds")\<close>.\<close>

definition datetime_isoformat :: "datetime \<Rightarrow> string" where
  "datetime_isoformat t =
     date_isoformat (dt_date t) @ ''T'' @ digits_of 2 (dt_hour t) @ '':''
       @ digits_of 2 (dt_minute t) @ '':'' @ digits_of 2 (dt_second t)"

text \<open>
  \<open>datetime.fromisoformat\<close> is the library's, and the operations below take it as a
  parameter (a field of \<open>world\<close>): it answers with a \<open>datetime\<close> or raises.  For the
  examples, \<open>written_fromisoformat\<close> stands in for it: it reads the two layouts the
  application itself writes, \<open>YYYY-MM-DD\<close> (\<open>date.isoformat()\<close>) and \<open>YYYY-MM-DD\<close>, one
  separator character, \<open>HH:MM:SS\<close> (\<open>datetime.isoformat(timespec="seconds")\<close>), and is
  used on no other text than these and texts that are no dates at all.
\<close>

definition parse_date_part :: "string \<Rightarrow> date option" where
  "parse_date_part s =
     (if length s = 10 \<and> list_all is_digit (take 4 s) \<and> s ! 4 = CHR ''-''
         \<and> list_all is_digit (take 2 (drop 5 s)) \<and> s ! 7 = CHR ''-''
         \<and> list_all is_digit (drop 8 s)
      then let y = int (int_of_digits (take 4 s));
               m = int (int_of_digits (take 2 (drop 5 s)));
               d = int (int_of_digits (drop 8 s))
           in if 1 \<le> y \<and> 1 \<le> m \<and> m \<le> 12 \<and> 1 \<le> d \<and> d \<le> days_in_month y m
              then Some (ymd2ord y m d) else None
      else None)"

definition parse_time_part :: "string \<Rightarrow> (nat \<times> nat \<times> nat) option" where
  "parse_time_part s =
     (if length s = 8 \<and> list_all is_digit (take 2 s) \<and> s ! 2 = CHR '':''
         \<and> list_all is_digit (take 2 (drop 3 s)) \<and> s ! 5 = CHR '':''
         \<and> list_all is_digit (drop 6 s)
      then let h = int_of_digits (take 2 s);
               m = int_of_digits (take 2 (drop 3 s));
               sec = int_of_digits (drop 6 s)
           in if h < 24 \<and> m < 60 \<and> sec < 60 then Some (h, m, sec) else None
      else None)"

definition written_fromisoformat :: "string \<Rightarrow> py_error + datetime" where
  "written_fromisoformat s =
     (case parse_date_part (take 10 s) of
        None \<Rightarrow> Inl ValueError
      | Some d \<Rightarrow>
          if length s = 10
          then Inr \<lparr>dt_date = d, dt_hour = 0, dt_minute = 0, dt_second = 0\<rparr>
          else (case parse_time_part (drop 11 s) of
                  None \<Rightarrow> Inl ValueError
                | Some (h, m, sec) \<Rightarrow>
                    Inr \<lparr>dt_date = d, dt_hour = h, dt_minute = m, dt_second = sec\<rparr>))"

text \<open>
  \<open>d + timedelta(days=n)\<close>: \<open>OverflowError\<close> when the day count is beyond what
  \<open>timedelta\<close> holds or the result leaves the range of \<open>date\<close>.
\<close>

definition date_add_days :: "date \<Rightarrow> int \<Rightarrow> py_error + date" where
  "date_add_days d n =
     (if \<bar>n\<bar> > 999999999 \<or> d + n < 1 \<or> d + n > MAXORDINAL then Inl OverflowError
      else Inr (d + n))"

section \<open>What a call reads from outside the store\<close>

text \<open>
  The sqlite3 calls of \<open>update_task\<close>, in the order the function makes them.  The
  database can fail at any of them (locked, disk full, file gone): the call then
  raises \<open>sqlite3.OperationalError\<close>, and what was not committed before is not stored.
\<close>

datatype sql_call =
    Connect
  | UpdateTasks
  | CommitTasks
  | SelectUser
  | SelectPriority
  | UpdateUser
  | CommitUser

text \<open>
  A call reads three things from outside the store: the library function
  \<open>datetime.fromisoformat\<close>; one reading \<open>now\<close> of the clock (\<open>datetime.now()\<close> is \<open>now\<close>
  and \<open>date.today()\<close> is its date); and \<open>fault\<close>, the sqlite3 call at which the
  database fails during this call, if it fails at all.
\<close>

record world =
  fromisoformat :: "string \<Rightarrow> py_error + datetime"
  now :: datetime
  fault :: "sql_call option"

text \<open>
  A column of type \<open>INTEGER\<close> holds a signed 64-bit value; sqlite3 raises
  \<open>OverflowError\<close> when asked to bind a Python integer outside that range.
\<close>

definition fits_sqlite_int :: "int \<Rightarrow> bool" where
  "fits_sqlite_int n = (- 9223372036854775808 \<le> n \<and> n \<le> 9223372036854775807)"

section \<open>Priority suggestion\<close>

text \<open>
  The argument \<open>due\<close> of \<open>suggest_priority_by_due\<close> is any Python value: \<open>None\<close>, a
  string, a \<open>datetime\<close>, a \<open>date\<close>, or something else.  Of the last only the truth
  value is looked at, by \<open>not due\<close>: taking it answers or raises (as for a pandas
  \<open>Series\<close>, or any object whose \<open>__bool__\<close> or \<open>__len__\<close> raises).
\<close>

datatype due_arg =
    DueNone
  | DueStr string
  | DueDatetime datetime
  | DueDate date
  | DueOther "py_error + bool"

fun truthy_due :: "due_arg \<Rightarrow> py_error + bool" where
  "truthy_due DueNone = Inr False"
| "truthy_due (DueStr s) = Inr (s \<noteq> [])"
| "truthy_due (DueDatetime t) = Inr True"
| "truthy_due (DueDate d) = Inr True"
| "truthy_due (DueOther b) = b"

definition priority_of_delta :: "int \<Rightarrow> string" where
  "priority_of_delta delta =
     (if delta \<le> 0 then ''High'' else if delta \<le> 3 then ''Medium'' else ''Low'')"

definition suggest_priority_by_due :: "world \<Rightarrow> due_arg \<Rightarrow> py_error + string" where
  "suggest_priority_by_due w due =
     (case truthy_due due of
        Inl e \<Rightarrow> Inl e
      | Inr truthy \<Rightarrow>
          if \<not> truthy then Inr ''Low''
          else let today = dt_date (now w)
               in case due of
                    DueStr s \<Rightarrow>
                      (case fromisoformat w s of
                         Inl e \<Rightarrow> Inr ''Low''
                       | Inr due_dt \<Rightarrow> Inr (priority_of_delta (dt_date due_dt - today)))
                  | DueDatetime t \<Rightarrow> Inr (priority_of_delta (dt_date t - today))
                  | DueDate d \<Rightarrow> Inr (priority_of_delta (d - today))
                  | _ \<Rightarrow> Inr ''Low'')"

text \<open>An optional calendar date as the argument: \<open>None\<close> or a \<open>date\<close>.\<close>

fun optional_date :: "date option \<Rightarrow> due_arg" where
  "optional_date None = DueNone"
| "optional_date (Some d) = DueDate d"

section \<open>The store\<close>

text \<open>
  The two tables of \<open>init_db\<close>, a row as a record with one field per column (a
  \<open>NULL\<close>-able column is an \<open>option\<close>; \<open>done\<close> is stored as 0 or 1 and read as a
  truth value).  A task of the JSON fallback file has the same keys except \<open>user_id\<close>,
  so a row of \<open>tasks\<close> extends it.
\<close>

record user_row =
  u_id :: int
  u_email :: string
  u_name :: string
  u_password_hash :: "string option"
  u_provider :: string
  u_points :: "int option"
  u_streak :: "int option"
  u_last_complete_date :: "string option"
  u_created_at :: string

record task =
  t_id :: string
  t_title :: string
  t_desc :: "string option"
  t_due :: "string option"
  t_priority :: "string option"
  t_category :: "string option"
  t_done :: bool
  t_created_at :: string
  t_completed_at :: "string option"

record task_row = task +
  t_user_id :: int

text \<open>The entry \<open>st.session_state["user"]\<close>.\<close>

record identity =
  i_id :: int
  i_email :: string
  i_name :: string
  i_provider :: string

text \<open>
  What the operations read and write: the session, the two tables of \<open>app.db\<close>, and
  the list that \<open>load_tasks\<close> reads from \<open>todos.json\<close> (empty when the file is
  missing or unreadable).
\<close>

record state =
  session_user :: "identity option"
  users :: "user_row list"
  tasks :: "task_row list"
  json_tasks :: "task list"

text \<open>
  The keyword arguments \<open>**updates\<close> of \<open>update_task\<close>: for each column the
  application passes, \<open>None\<close> when the key is absent and \<open>Some v\<close> when it is given
  with value \<open>v\<close>.
\<close>

record updates =
  upd_title :: "string option"
  upd_desc :: "string option option"
  upd_due :: "string option option"
  upd_priority :: "string option option"
  upd_category :: "string option option"
  upd_done :: "bool option"

definition no_keys :: "updates \<Rightarrow> bool" where
  "no_keys u = (upd_title u = None \<and> upd_desc u = None \<and> upd_due u = None
                \<and> upd_priority u = None \<and> upd_category u = None \<and> upd_done u = None)"

text \<open>Assigning the given keys to a task: the \<open>SET\<close> list, and \<open>t.update(**updates)\<close>.\<close>

definition set_keys :: "updates \<Rightarrow> 'a task_scheme \<Rightarrow> 'a task_scheme" where
  "set_keys u t =
     t\<lparr>t_title := (case upd_title u of None \<Rightarrow> t_title t | Some v \<Rightarrow> v),
       t_desc := (case upd_desc u of None \<Rightarrow> t_desc t | Some v \<Rightarrow> v),
       t_due := (case upd_due u of None \<Rightarrow> t_due t | Some v \<Rightarrow> v),
       t_priority := (case upd_priority u of None \<Rightarrow> t_priority t | Some v \<Rightarrow> v),
       t_category := (case upd_category u of None \<Rightarrow> t_category t | Some v \<Rightarrow> v),
       t_done := (case upd_done u of None \<Rightarrow> t_done t | Some v \<Rightarrow> v)\<rparr>"

section \<open>Authentication\<close>

definition get_user_by_email :: "user_row list \<Rightarrow> string \<Rightarrow> user_row option" where
  "get_user_by_email us email = find (\<lambda>u. u_email u = strip (lower email)) us"

text \<open>
  \<open>login_local\<close> returns the pair \<open>(user, error message)\<close>.  \<open>bcrypt.verify\<close> is the
  library's: it is the parameter \<open>verify\<close>, which answers or raises.
\<close>

definition login_local ::
  "(string \<Rightarrow> string option \<Rightarrow> py_error + bool) \<Rightarrow> user_row list \<Rightarrow> string \<Rightarrow> string
     \<Rightarrow> py_error + (user_row option \<times> string option)" where
  "login_local verify us email password =
     (case get_user_by_email us email of
        None \<Rightarrow> Inr (None, Some ''No account found for that email.'')
      | Some user \<Rightarrow>
          if u_provider user \<noteq> ''local''
          then Inr (None, Some (''This email is registered via Google. Use '' @ [CHR 0x27]
                                 @ ''Continue with Google'' @ [CHR 0x27] @ ''.''))
          else (case verify password (u_password_hash user) of
                  Inl e \<Rightarrow> Inl e
                | Inr ok \<Rightarrow>
                    if \<not> ok then Inr (None, Some ''Incorrect password.'')
                    else Inr (Some user, None)))"

text \<open>
  The login form of \<open>render_auth\<close> once submitted: an error message is shown
  (returned here), otherwise the session entry is filled from the row.
\<close>

definition login_submit ::
  "(string \<Rightarrow> string option \<Rightarrow> py_error + bool) \<Rightarrow> string \<Rightarrow> string \<Rightarrow> state
     \<Rightarrow> py_error + (state \<times> string option)" where
  "login_submit verify email password st =
     (case login_local verify (users st) email password of
        Inl e \<Rightarrow> Inl e
      | Inr (user, err) \<Rightarrow>
          if err \<noteq> None \<and> err \<noteq> Some []
          then Inr (st, err)
          else (case user of
                  None \<Rightarrow> Inl TypeError
                | Some u \<Rightarrow>
                    Inr (st\<lparr>session_user :=
                               Some \<lparr>i_id = u_id u, i_email = u_email u, i_name = u_name u,
                                     i_provider = u_provider u\<rparr>\<rparr>, None)))"

text \<open>The names the specification gives to the three messages of \<open>login_local\<close>.\<close>

datatype login_error = NotFoundError | ProviderMismatchError | InvalidCredentialsError

fun login_error_message :: "login_error \<Rightarrow> string" where
  "login_error_message NotFoundError = ''No account found for that email.''"
| "login_error_message ProviderMismatchError =
     ''This email is registered via Google. Use '' @ [CHR 0x27] @ ''Continue with Google''
       @ [CHR 0x27] @ ''.''"
| "login_error_message InvalidCredentialsError = ''Incorrect password.''"

section \<open>Task operations\<close>

definition priority_bonus :: "string option \<Rightarrow> int" where
  "priority_bonus prio =
     (if prio = Some ''High'' then 5 else if prio = Some ''Medium'' then 2
      else if prio = Some ''Low'' then 0 else 0)"

text \<open>\<open>UPDATE tasks SET ... WHERE id = ? AND user_id = ?\<close>, with its commit.\<close>

definition update_tasks_table :: "world \<Rightarrow> int \<Rightarrow> string \<Rightarrow> updates \<Rightarrow> state \<Rightarrow> state" where
  "update_tasks_table w uid task_id upd st =
     st\<lparr>tasks := map (\<lambda>r. if t_id r = task_id \<and> t_user_id r = uid
                           then (if upd_done upd = Some True
                                 then (set_keys upd r)\<lparr>t_completed_at :=
                                                         Some (datetime_isoformat (now w))\<rparr>
                                 else set_keys upd r)
                           else r) (tasks st)\<rparr>"

text \<open>
  The block \<open># gamify when completed\<close>.  It runs after the task update is committed;
  an exception raised in it leaves that commit in place, and the user's row as it
  was.  The ids bound to the statements are keys the database assigned.
\<close>

definition last_date_of :: "world \<Rightarrow> string option \<Rightarrow> date option" where
  "last_date_of w last_text =
     (case last_text of
        None \<Rightarrow> None
      | Some l \<Rightarrow> if l = [] then None
                  else (case fromisoformat w l of Inl e \<Rightarrow> None | Inr t \<Rightarrow> Some (dt_date t)))"

text \<open>The \<open>if\<close>/\<open>elif\<close>/\<open>else\<close> on the streak.\<close>

definition new_streak :: "date option \<Rightarrow> date \<Rightarrow> date \<Rightarrow> int option \<Rightarrow> int option" where
  "new_streak last_date yesterday today streak =
     (if last_date = Some yesterday
      then Some ((case streak of None \<Rightarrow> 0 | Some s \<Rightarrow> s) + 1)
      else if last_date = Some today then streak
      else Some 1)"

text \<open>A value bound to an \<open>INTEGER\<close> column: \<open>None\<close> (stored as \<open>NULL\<close>) or an integer.\<close>

definition fits_sqlite_value :: "int option \<Rightarrow> bool" where
  "fits_sqlite_value v = (case v of None \<Rightarrow> True | Some n \<Rightarrow> fits_sqlite_int n)"

definition gamify :: "world \<Rightarrow> int \<Rightarrow> string \<Rightarrow> state \<Rightarrow> state \<times> py_error option" where
  "gamify w uid task_id st =
     (if fault w = Some SelectUser then (st, Some OperationalError)
      else
        let row = find (\<lambda>u. u_id u = uid) (users st);
            points = (case row of Some r \<Rightarrow> u_points r | None \<Rightarrow> Some 0);
            streak = (case row of Some r \<Rightarrow> u_streak r | None \<Rightarrow> Some 0);
            last_text = (case row of Some r \<Rightarrow> u_last_complete_date r | None \<Rightarrow> None);
            today = dt_date (now w);
            today_str = date_isoformat today;
            last_date = last_date_of w last_text
        in if fault w = Some SelectPriority then (st, Some OperationalError)
           else
             let pr = find (\<lambda>t. t_id t = task_id \<and> t_user_id t = uid) (tasks st);
                 prio = (case pr of Some t \<Rightarrow> t_priority t | None \<Rightarrow> Some ''Medium'');
                 bonus = priority_bonus prio
             in case points of
                  None \<Rightarrow> (st, Some TypeError)
                | Some p \<Rightarrow>
                    (case date_add_days today (- 1) of
                       Inl e \<Rightarrow> (st, Some e)
                     | Inr yesterday \<Rightarrow>
                         let points' = p + (10 + bonus);
                             streak' = new_streak last_date yesterday today streak
                         in if \<not> fits_sqlite_int points' \<or> \<not> fits_sqlite_value streak'
                            then (st, Some OverflowError)
                            else if fault w = Some UpdateUser \<or> fault w = Some CommitUser
                            then (st, Some OperationalError)
                            else (st\<lparr>users :=
                                       map (\<lambda>u. if u_id u = uid
                                                 then u\<lparr>u_points := Some points',
                                                        u_streak := streak',
                                                        u_last_complete_date := Some today_str\<rparr>
                                                 else u) (users st)\<rparr>, None)))"

text \<open>
  \<open>update_task\<close> with a signed-in user.  With no key at all the statement is
  \<open>UPDATE tasks SET  WHERE ...\<close>, which sqlite3 refuses.  The result is the stored
  state when the call ends and the exception it ends with, if any.
\<close>

definition update_task_db ::
  "world \<Rightarrow> int \<Rightarrow> string \<Rightarrow> updates \<Rightarrow> state \<Rightarrow> state \<times> py_error option" where
  "update_task_db w uid task_id upd st =
     (if fault w = Some Connect then (st, Some OperationalError)
      else if no_keys upd then (st, Some OperationalError)
      else if fault w = Some UpdateTasks \<or> fault w = Some CommitTasks
      then (st, Some OperationalError)
      else let st1 = update_tasks_table w uid task_id upd st
           in if upd_done upd = Some True then gamify w uid task_id st1
              else (st1, None))"

text \<open>The JSON fallback of \<open>update_task\<close>, with a file that can be written.\<close>

definition update_task_json :: "world \<Rightarrow> string \<Rightarrow> updates \<Rightarrow> state \<Rightarrow> state" where
  "update_task_json w task_id upd st =
     st\<lparr>json_tasks := map (\<lambda>t. if t_id t = task_id
                                then (let prev_done = t_done t; t' = set_keys upd t
                                      in if upd_done upd = Some True \<and> \<not> prev_done
                                         then t'\<lparr>t_completed_at :=
                                                  Some (datetime_isoformat (now w))\<rparr>
                                         else t')
                                else t) (json_tasks st)\<rparr>"

definition update_task ::
  "world \<Rightarrow> string \<Rightarrow> updates \<Rightarrow> state \<Rightarrow> state \<times> py_error option" where
  "update_task w task_id upd st =
     (case session_user st of
        Some user \<Rightarrow> update_task_db w (i_id user) task_id upd st
      | None \<Rightarrow> (update_task_json w task_id upd st, None))"

text \<open>\<open>delete_task\<close>, with a store that answers.\<close>

definition delete_task :: "string \<Rightarrow> state \<Rightarrow> state" where
  "delete_task task_id st =
     (case session_user st of
        Some user \<Rightarrow>
          st\<lparr>tasks := filter (\<lambda>r. \<not> (t_id r = task_id \<and> t_user_id r = i_id user)) (tasks st)\<rparr>
      | None \<Rightarrow> st\<lparr>json_tasks := filter (\<lambda>t. t_id t \<noteq> task_id) (json_tasks st)\<rparr>)"

text \<open>A sequence of calls of \<open>update_task\<close>, each with what it reads from outside.\<close>

fun update_tasks :: "(world \<times> string \<times> updates) list \<Rightarrow> state \<Rightarrow> state" where
  "update_tasks [] st = st"
| "update_tasks ((w, task_id, upd) # calls) st =
     update_tasks calls (fst (update_task w task_id upd st))"

section \<open>Analytics: the category histogram\<close>

text \<open>
  The entry \<open>"categories"\<close> of \<open>compute_analytics\<close>:
  \<open>df["category"].fillna("Other").value_counts().to_dict()\<close>, a dictionary from
  category to count.  (The weekly histogram and the average, which need ISO weeks
  and floating point, are not part of this development.)
\<close>

definition fillna_other :: "string option \<Rightarrow> string" where
  "fillna_other c = (case c of None \<Rightarrow> ''Other'' | Some v \<Rightarrow> v)"

definition count_one :: "string \<Rightarrow> (string \<rightharpoonup> nat) \<Rightarrow> (string \<rightharpoonup> nat)" where
  "count_one v m = m(v \<mapsto> (case m v of None \<Rightarrow> 1 | Some n \<Rightarrow> Suc n))"

definition value_counts :: "string list \<Rightarrow> (string \<rightharpoonup> nat)" where
  "value_counts vs = fold count_one vs Map.empty"

definition compute_analytics_categories :: "'a task_scheme list \<Rightarrow> (string \<rightharpoonup> nat)" where
  "compute_analytics_categories ts =
     (if ts = [] then Map.empty
      else value_counts (map (\<lambda>t. fillna_other (t_category t)) ts))"

section \<open>Voice text\<close>

text \<open>
  The regular expression \<open>in (\d+) days?\<close> matched at the start of a text: the
  digits of group 1 and the text after the match.
\<close>

definition match_in_days :: "string \<Rightarrow> (string \<times> string) option" where
  "match_in_days s =
     (if startswith s ''in ''
      then let r = drop 3 s; ds = takeWhile is_digit r; r2 = dropWhile is_digit r
           in if ds \<noteq> [] \<and> startswith r2 '' day''
              then let r3 = drop 4 r2
                   in Some (ds, if startswith r3 ''s'' then drop 1 r3 else r3)
              else None
      else None)"

text \<open>\<open>re.search\<close>: group 1 of the leftmost match.\<close>

fun re_search_in_days :: "string \<Rightarrow> string option" where
  "re_search_in_days [] = None"
| "re_search_in_days (c # cs) =
     (case match_in_days (c # cs) of
        Some (ds, rest) \<Rightarrow> Some ds
      | None \<Rightarrow> re_search_in_days cs)"

text \<open>
  \<open>re.sub(r"in \d+ days?", "", txt, flags=re.I)\<close>: every match, found without
  regard to case, is removed.  The first argument counts the characters of the
  current match still to be dropped.
\<close>

fun re_sub_in_days :: "nat \<Rightarrow> string \<Rightarrow> string" where
  "re_sub_in_days k [] = []"
| "re_sub_in_days (Suc k) (c # cs) = re_sub_in_days k cs"
| "re_sub_in_days 0 (c # cs) =
     (case match_in_days (lower (c # cs)) of
        Some (ds, rest) \<Rightarrow> re_sub_in_days (length (c # cs) - length rest - 1) cs
      | None \<Rightarrow> c # re_sub_in_days 0 cs)"

definition suggested_priority_of :: "string \<Rightarrow> string option" where
  "suggested_priority_of txt_low =
     (if contains ''high priority'' txt_low \<or> contains ''urgent'' txt_low then Some ''High''
      else if contains ''low priority'' txt_low \<or> contains ''low'' txt_low then Some ''Low''
      else None)"

definition parse_voice_text_for_task ::
  "date \<Rightarrow> string \<Rightarrow> py_error + (string \<times> date option \<times> string option)" where
  "parse_voice_text_for_task today text =
     (let txt = strip text;
          txt_low = lower txt;
          suggested_priority = suggested_priority_of txt_low
      in if contains ''tomorrow'' txt_low
         then (case date_add_days today 1 of
                 Inl e \<Rightarrow> Inl e
               | Inr due \<Rightarrow>
                   let title = strip (replace_empty ''tomorrow'' txt)
                   in Inr (if title \<noteq> [] then title else txt, Some due, suggested_priority))
         else (case re_search_in_days txt_low of
                 Some ds \<Rightarrow>
                   (case date_add_days today (int (int_of_digits ds)) of
                      Inl e \<Rightarrow> Inl e
                    | Inr due \<Rightarrow>
                        let title = strip (re_sub_in_days 0 txt)
                        in Inr (if title \<noteq> [] then title else txt, Some due,
                                suggested_priority))
               | None \<Rightarrow> Inr (txt, None, suggested_priority)))"

text \<open>
  A reading of the specification's "standalone word": an occurrence of the word with
  no letter or digit directly before it or directly after it.  The first argument
  is the character before the text, if any.
\<close>

definition is_alnum :: "char \<Rightarrow> bool" where
  "is_alnum c = (let n = (of_char c :: nat)
                 in (48 \<le> n \<and> n \<le> 57) \<or> (65 \<le> n \<and> n \<le> 90) \<or> (97 \<le> n \<and> n \<le> 122))"

fun spec_standalone_word_after :: "char option \<Rightarrow> string \<Rightarrow> string \<Rightarrow> bool" where
  "spec_standalone_word_after prev w [] = False"
| "spec_standalone_word_after prev w (c # cs) =
     ((startswith (c # cs) w
         \<and> (case prev of None \<Rightarrow> True | Some b \<Rightarrow> \<not> is_alnum b)
         \<and> (case drop (length w) (c # cs) of [] \<Rightarrow> True | a # as \<Rightarrow> \<not> is_alnum a))
      \<or> spec_standalone_word_after (Some c) w cs)"

definition spec_standalone_word :: "string \<Rightarrow> string \<Rightarrow> bool" where
  "spec_standalone_word w s = spec_standalone_word_after None w s"

text \<open>
  The priority hint as the specification words it: High for "urgent" or "high
  priority", Low for "low priority" or the standalone word "low", unset otherwise.
\<close>

definition spec_priority_hint :: "string \<Rightarrow> string option" where
  "spec_priority_hint text =
     (let low_text = lower text
      in if contains ''urgent'' low_text \<or> contains ''high priority'' low_text then Some ''High''
         else if contains ''low priority'' low_text \<or> spec_standalone_word ''low'' low_text
         then Some ''Low''
         else None)"

section \<open>Invariant of the task store\<close>

text \<open>Every task marked done carries a completion timestamp, in both stores.\<close>

definition completed_have_timestamp :: "state \<Rightarrow> bool" where
  "completed_have_timestamp st =
     ((\<forall>r \<in> set (tasks st). t_done r \<longrightarrow> t_completed_at r \<noteq> None)
      \<and> (\<forall>t \<in> set (json_tasks st). t_done t \<longrightarrow> t_completed_at t \<noteq> None))"

section \<open>Example data\<close>

text \<open>
  A store with two users and two tasks, one each; user 1 is signed in.  The calls
  are made on 2024-01-15 (ordinal 738900), five minutes apart, with a database that
  does not fail; in \<open>at_10_00_failing\<close> it fails at the update of the user's row.
  \<open>example_verify\<close> stands in for \<open>bcrypt.verify\<close> on these rows.
\<close>

definition example_user :: user_row where
  "example_user =
     \<lparr>u_id = 1, u_email = ''a@x.com'', u_name = ''A'', u_password_hash = Some ''hash-of-secret1'',
      u_provider = ''local'', u_points = Some 40, u_streak = Some 3,
      u_last_complete_date = Some ''2024-01-14'', u_created_at = ''2024-01-10T09:00:00''\<rparr>"

definition example_google_user :: user_row where
  "example_google_user =
     \<lparr>u_id = 2, u_email = ''b@x.com'', u_name = ''B'', u_password_hash = None,
      u_provider = ''google'', u_points = Some 0, u_streak = Some 0,
      u_last_complete_date = None, u_created_at = ''2024-01-11T09:00:00''\<rparr>"

definition example_task :: task_row where
  "example_task =
     \<lparr>t_id = ''t1'', t_title = ''Pay rent'', t_desc = Some [], t_due = Some ''2024-01-15'',
      t_priority = Some ''High'', t_category = Some ''Personal'', t_done = False,
      t_created_at = ''2024-01-14T08:00:00'', t_completed_at = None, t_user_id = 1\<rparr>"

definition other_task :: task_row where
  "other_task =
     \<lparr>t_id = ''t2'', t_title = ''Plan trip'', t_desc = Some [], t_due = None,
      t_priority = Some ''Low'', t_category = None, t_done = False,
      t_created_at = ''2024-01-14T08:30:00'', t_completed_at = None, t_user_id = 2\<rparr>"

definition signed_in :: state where
  "signed_in =
     \<lparr>session_user = Some \<lparr>i_id = 1, i_email = ''a@x.com'', i_name = ''A'', i_provider = ''local''\<rparr>,
      users = [example_user, example_google_user],
      tasks = [example_task, other_task], json_tasks = []\<rparr>"

definition at_10_00 :: world where
  "at_10_00 =
     \<lparr>fromisoformat = written_fromisoformat,
      now = \<lparr>dt_date = 738900, dt_hour = 10, dt_minute = 0, dt_second = 0\<rparr>,
      fault = None\<rparr>"

definition at_10_05 :: world where
  "at_10_05 =
     \<lparr>fromisoformat = written_fromisoformat,
      now = \<lparr>dt_date = 738900, dt_hour = 10, dt_minute = 5, dt_second = 0\<rparr>,
      fault = None\<rparr>"

definition at_10_00_failing :: world where
  "at_10_00_failing =
     \<lparr>fromisoformat = written_fromisoformat,
      now = \<lparr>dt_date = 738900, dt_hour = 10, dt_minute = 0, dt_second = 0\<rparr>,
      fault = Some UpdateUser\<rparr>"

definition set_done :: "bool \<Rightarrow> updates" where
  "set_done b = \<lparr>upd_title = None, upd_desc = None, upd_due = None, upd_priority = None,
                 upd_category = None, upd_done = Some b\<rparr>"

definition near_limit :: state where
  "near_limit =
     signed_in\<lparr>users := [example_user\<lparr>u_points := Some 9223372036854775800\<rparr>,
                         example_google_user]\<rparr>"

definition example_json_task :: task where
  "example_json_task =
     \<lparr>t_id = ''j1'', t_title = ''Water plants'', t_desc = Some [], t_due = None,
      t_priority = Some ''Low'', t_category = Some ''Other'', t_done = False,
      t_created_at = ''2024-01-14T09:00:00'', t_completed_at = None\<rparr>"

definition signed_out_json :: state where
  "signed_out_json = \<lparr>session_user = None, users = [example_user, example_google_user],
                      tasks = [example_task, other_task], json_tasks = [example_json_task]\<rparr>"

definition set_title :: "string \<Rightarrow> updates" where
  "set_title s = \<lparr>upd_title = Some s, upd_desc = None, upd_due = None, upd_priority = None,
                  upd_category = None, upd_done = None\<rparr>"

definition example_verify :: "string \<Rightarrow> string option \<Rightarrow> py_error + bool" where
  "example_verify password h =
     (case h of None \<Rightarrow> Inl TypeError | Some hs \<Rightarrow> Inr (hs = ''hash-of-'' @ password))"

definition signed_out :: state where
  "signed_out = \<lparr>session_user = None, users = [example_user, example_google_user],
                 tasks = [], json_tasks = []\<rparr>"

section \<open>Properties of the priority suggestion\<close>

text \<open>
  C5.  For every optional due date \<open>d\<close> and every current date \<open>today\<close>, the
  suggestion is High exactly when \<open>d\<close> is a date with \<open>d \<le> today\<close>, Medium exactly
  when \<open>1 \<le> (d - today).days \<le> 3\<close>, and Low exactly when \<open>d\<close> is null or
  \<open>(d - today).days > 3\<close>.  Here \<open>today\<close> is the date of the clock reading.
\<close>

theorem suggest_priority_by_due_rule:
  "(suggest_priority_by_due w (optional_date d) = Inr ''High''
      \<longleftrightarrow> (\<exists>x. d = Some x \<and> x \<le> dt_date (now w)))
   \<and> (suggest_priority_by_due w (optional_date d) = Inr ''Medium''
      \<longleftrightarrow> (\<exists>x. d = Some x \<and> 1 \<le> x - dt_date (now w) \<and> x - dt_date (now w) \<le> 3))
   \<and> (suggest_priority_by_due w (optional_date d) = Inr ''Low''
      \<longleftrightarrow> (d = None \<or> (\<exists>x. d = Some x \<and> x - dt_date (now w) > 3)))"
proof (cases d)
  case None
  then show ?thesis
    by (simp add: suggest_priority_by_due_def)
next
  case (Some x)
  then show ?thesis
    by (simp add: suggest_priority_by_due_def priority_of_delta_def Let_def)
qed

text \<open>
  C10, as the code has it.  For the argument \<open>None\<close>, for a string that
  \<open>datetime.fromisoformat\<close> rejects (the exception is caught), and for a value that
  is neither a string nor a date nor a datetime and whose truth value can be taken,
  the function returns \<open>"Low"\<close> and does not raise.  It raises exactly when taking
  the truth value of the argument raises, and then with that exception.
\<close>

theorem suggest_priority_by_due_total:
  "suggest_priority_by_due w DueNone = Inr ''Low''
   \<and> (fromisoformat w s = Inl e \<longrightarrow> suggest_priority_by_due w (DueStr s) = Inr ''Low'')
   \<and> suggest_priority_by_due w (DueOther (Inr b)) = Inr ''Low''
   \<and> (suggest_priority_by_due w due = Inl e' \<longleftrightarrow> due = DueOther (Inl e'))"
proof -
  have raises: "suggest_priority_by_due w due = Inl e' \<longleftrightarrow> due = DueOther (Inl e')"
  proof (cases due)
    case (DueOther t)
    then show ?thesis
      by (cases t) (simp_all add: suggest_priority_by_due_def)
  qed (simp_all add: suggest_priority_by_due_def Let_def split: sum.splits)
  then show ?thesis
    by (simp add: suggest_priority_by_due_def)
qed

theorem suggest_priority_by_due_total_witness:
  "fromisoformat at_10_00 ''next week'' = Inl ValueError
   \<and> suggest_priority_by_due at_10_00 (DueStr ''next week'') = Inr ''Low''"
proof -
  have h: "fromisoformat at_10_00 ''next week'' = Inl ValueError"
    by (simp add: at_10_00_def written_fromisoformat_def parse_date_part_def)
  from suggest_priority_by_due_total [of at_10_00 "''next week''" ValueError] h
  show ?thesis by simp
qed

text \<open>
  C10 as stated fails: for a value that is no date, datetime or string and whose
  truth value raises (here with \<open>ValueError\<close>, as a pandas \<open>Series\<close> does), the
  function raises instead of returning \<open>"Low"\<close>.
\<close>

theorem suggest_priority_by_due_raises_counterexample:
  "suggest_priority_by_due at_10_00 (DueOther (Inl ValueError)) = Inl ValueError"
  by (simp add: suggest_priority_by_due_def)

section \<open>Properties of the text operations\<close>

lemma startswith_iff: "startswith s p \<longleftrightarrow> (\<exists>post. s = p @ post)"
  by (induction s p rule: startswith.induct) auto

lemma contains_iff: "contains sub s \<longleftrightarrow> (\<exists>pre post. s = pre @ sub @ post)"
proof (induction s)
  case Nil
  then show ?case by auto
next
  case (Cons c cs)
  show ?case
  proof
    assume "contains sub (c # cs)"
    then consider "startswith (c # cs) sub" | "contains sub cs" by auto
    then show "\<exists>pre post. c # cs = pre @ sub @ post"
    proof cases
      case 1
      then obtain post where "c # cs = sub @ post" by (auto simp: startswith_iff)
      then have "c # cs = [] @ sub @ post" by simp
      then show ?thesis by blast
    next
      case 2
      with Cons obtain pre post where "cs = pre @ sub @ post" by blast
      then have "c # cs = (c # pre) @ sub @ post" by simp
      then show ?thesis by blast
    qed
  next
    assume "\<exists>pre post. c # cs = pre @ sub @ post"
    then obtain pre post where eq: "c # cs = pre @ sub @ post" by blast
    show "contains sub (c # cs)"
    proof (cases pre)
      case Nil
      with eq have "startswith (c # cs) sub" by (auto simp: startswith_iff)
      then show ?thesis by simp
    next
      case (Cons a pre')
      with eq have "cs = pre' @ sub @ post" by simp
      with Cons.IH have "contains sub cs" by blast
      then show ?thesis by simp
    qed
  qed
qed

lemma contains_rev: "contains (rev sub) (rev s) = contains sub s"
proof -
  have "(\<exists>pre post. rev s = pre @ rev sub @ post) \<longleftrightarrow> (\<exists>pre post. s = pre @ sub @ post)"
  proof
    assume "\<exists>pre post. rev s = pre @ rev sub @ post"
    then obtain pre post where "rev s = pre @ rev sub @ post" by blast
    then have "rev (rev s) = rev (pre @ rev sub @ post)" by simp
    then have "s = rev post @ sub @ rev pre" by simp
    then show "\<exists>pre post. s = pre @ sub @ post" by blast
  next
    assume "\<exists>pre post. s = pre @ sub @ post"
    then obtain pre post where "s = pre @ sub @ post" by blast
    then have "rev s = rev post @ rev sub @ rev pre" by simp
    then show "\<exists>pre post. rev s = pre @ rev sub @ post" by blast
  qed
  then show ?thesis by (simp add: contains_iff)
qed

lemma contains_dropWhile:
  assumes "sub \<noteq> []" "\<not> P (hd sub)"
  shows "contains sub (dropWhile P s) = contains sub s"
proof (induction s)
  case Nil
  then show ?case by simp
next
  case (Cons c cs)
  show ?case
  proof (cases "P c")
    case True
    with assms have "\<not> startswith (c # cs) sub"
      by (cases sub) auto
    with True Cons show ?thesis by simp
  next
    case False
    then show ?thesis by simp
  qed
qed

lemma contains_strip:
  assumes "sub \<noteq> []" "\<not> is_space (hd sub)" "\<not> is_space (last sub)"
  shows "contains sub (strip s) = contains sub s"
proof -
  have r: "rev sub \<noteq> []" "\<not> is_space (hd (rev sub))"
    using assms by (simp_all add: hd_rev)
  have "contains sub (strip s) = contains (rev sub) (dropWhile is_space (rev (dropWhile is_space s)))"
    unfolding strip_def using contains_rev [of sub "rev (dropWhile is_space (rev (dropWhile is_space s)))"]
    by simp
  also have "\<dots> = contains (rev sub) (rev (dropWhile is_space s))"
    using contains_dropWhile [of "rev sub" is_space "rev (dropWhile is_space s)"] r by simp
  also have "\<dots> = contains sub (dropWhile is_space s)"
    by (rule contains_rev)
  also have "\<dots> = contains sub s"
    using contains_dropWhile [of sub is_space s] assms by simp
  finally show ?thesis .
qed

lemma is_space_lower_char: "is_space (lower_char c) = is_space c"
  by (auto simp: is_space_def lower_char_def is_upper_def Let_def)

lemma lower_strip: "lower (strip s) = strip (lower s)"
proof -
  have comp: "is_space \<circ> lower_char = is_space"
    by (rule ext) (simp add: is_space_lower_char)
  show ?thesis
    by (simp add: lower_def strip_def dropWhile_map rev_map comp)
qed

lemma contains_lower_strip:
  assumes "sub \<noteq> []" "\<not> is_space (hd sub)" "\<not> is_space (last sub)"
  shows "contains sub (lower (strip s)) = contains sub (lower s)"
  using contains_strip [OF assms] by (simp add: lower_strip)

lemma suggested_priority_of_text:
  "suggested_priority_of (lower (strip s)) = suggested_priority_of (lower s)"
  by (simp add: suggested_priority_of_def contains_lower_strip is_space_def)


section \<open>Properties of the voice parser\<close>

lemma parse_voice_hint:
  assumes "parse_voice_text_for_task today text = Inr (title, due, hint)"
  shows "hint = suggested_priority_of (lower (strip text))"
  using assms
  by (auto simp: parse_voice_text_for_task_def Let_def
           split: if_splits sum.splits option.splits)

text \<open>
  C9, as the code has it.  Whenever the voice parser returns, its priority hint is
  High exactly when the text contains "urgent" or "high priority" (in any case),
  Low exactly when it does not and the text contains the letters "low" anywhere (as
  a word, in "low priority", or inside a longer word), and unset otherwise.
\<close>

theorem voice_priority_hint:
  assumes "parse_voice_text_for_task today text = Inr (title, due, hint)"
  shows "(hint = Some ''High''
            \<longleftrightarrow> contains ''urgent'' (lower text) \<or> contains ''high priority'' (lower text))
       \<and> (hint = Some ''Low''
            \<longleftrightarrow> \<not> (contains ''urgent'' (lower text) \<or> contains ''high priority'' (lower text))
                \<and> contains ''low'' (lower text))
       \<and> (hint = None
            \<longleftrightarrow> \<not> (contains ''urgent'' (lower text) \<or> contains ''high priority'' (lower text))
                \<and> \<not> contains ''low'' (lower text))"
proof -
  have "hint = suggested_priority_of (lower text)"
    using parse_voice_hint [OF assms] by (simp add: suggested_priority_of_text)
  moreover have "contains ''low priority'' s \<Longrightarrow> contains ''low'' s" for s
  proof -
    assume "contains ''low priority'' s"
    then obtain pre post where "s = pre @ ''low priority'' @ post"
      by (auto simp: contains_iff)
    then have "s = pre @ ''low'' @ ('' priority'' @ post)" by simp
    then show "contains ''low'' s" unfolding contains_iff by blast
  qed
  ultimately show ?thesis
    by (auto simp: suggested_priority_of_def)
qed

theorem voice_priority_hint_witness:
  "parse_voice_text_for_task 738900 ''Call the bank, URGENT''
     = Inr (''Call the bank, URGENT'', None, Some ''High'')
   \<and> contains ''urgent'' (lower ''Call the bank, URGENT'')"
proof -
  have h: "parse_voice_text_for_task 738900 ''Call the bank, URGENT''
             = Inr (''Call the bank, URGENT'', None, Some ''High'')"
    by code_simp
  from voice_priority_hint [OF h] have "contains ''urgent'' (lower ''Call the bank, URGENT'')
     \<or> contains ''high priority'' (lower ''Call the bank, URGENT'')"
    by simp
  moreover have "\<not> contains ''high priority'' (lower ''Call the bank, URGENT'')"
    by code_simp
  ultimately show ?thesis using h by simp
qed

text \<open>
  C9 as stated fails: "follow up with Sam" has neither "low priority" nor the
  standalone word "low", and the parser's hint is Low.
\<close>

theorem voice_low_counterexample:
  "parse_voice_text_for_task 738900 ''follow up with Sam''
     = Inr (''follow up with Sam'', None, Some ''Low'')
   \<and> spec_priority_hint ''follow up with Sam'' = None"
  by code_simp

section \<open>Properties of the category histogram\<close>

lemma count_one_apply:
  "count_one v m c = (if c = v then Some (case m v of None \<Rightarrow> 1 | Some n \<Rightarrow> Suc n) else m c)"
  by (simp add: count_one_def)

lemma fold_count_one:
  "fold count_one vs m c =
     (let n = length (filter (\<lambda>v. v = c) vs)
      in case m c of None \<Rightarrow> (if n = 0 then None else Some n) | Some k \<Rightarrow> Some (k + n))"
proof (induction vs arbitrary: m)
  case Nil
  then show ?case by (simp split: option.splits)
next
  case (Cons v vs)
  have "fold count_one (v # vs) m c = fold count_one vs (count_one v m) c"
    by simp
  also have "\<dots> = (let n = length (filter (\<lambda>v. v = c) vs)
      in case count_one v m c of None \<Rightarrow> (if n = 0 then None else Some n)
         | Some k \<Rightarrow> Some (k + n))"
    by (rule Cons.IH)
  also have "\<dots> = (let n = length (filter (\<lambda>v. v = c) (v # vs))
      in case m c of None \<Rightarrow> (if n = 0 then None else Some n) | Some k \<Rightarrow> Some (k + n))"
    by (simp add: count_one_apply Let_def split: option.splits)
  finally show ?case .
qed

text \<open>
  C8.  The category histogram counts every task, completed or not, under its
  category, a null category under "Other": the entry of a category is the number
  of tasks in it, and a category with no task has no entry.  For the tasks
  \<open>[{category: null}, {category: "Work"}]\<close> it is \<open>{"Other": 1, "Work": 1}\<close>.
\<close>

theorem category_histogram:
  "compute_analytics_categories ts c =
     (let n = length (filter (\<lambda>t. fillna_other (t_category t) = c) ts)
      in if n = 0 then None else Some n)
   \<and> compute_analytics_categories [t1\<lparr>t_category := None\<rparr>, t2\<lparr>t_category := Some ''Work''\<rparr>]
       = [''Other'' \<mapsto> 1, ''Work'' \<mapsto> 1]"
proof
  show "compute_analytics_categories ts c =
     (let n = length (filter (\<lambda>t. fillna_other (t_category t) = c) ts)
      in if n = 0 then None else Some n)"
    by (simp add: compute_analytics_categories_def value_counts_def fold_count_one Let_def
                  filter_map comp_def)
  show "compute_analytics_categories [t1\<lparr>t_category := None\<rparr>, t2\<lparr>t_category := Some ''Work''\<rparr>]
       = [''Other'' \<mapsto> 1, ''Work'' \<mapsto> 1]"
    by (rule ext)
       (simp add: compute_analytics_categories_def value_counts_def count_one_def fillna_other_def)
qed

section \<open>Properties of the login\<close>

text \<open>
  C7.  For every email and password: when no user has the normalized email the
  login fails with the message of NotFoundError; otherwise, when the account's
  provider is not \<open>local\<close>, with that of ProviderMismatchError; otherwise, when the
  hash verification answers false, with that of InvalidCredentialsError; otherwise
  (the verification answers true) \<open>login_local\<close> returns the user's row and the login
  form stores the identity made of exactly its id, email, name and provider.  Each
  case presupposes that the earlier checks passed, so the checks are made in this
  order.
\<close>

theorem login_checks_in_order:
  "(get_user_by_email (users st) email = None \<longrightarrow>
      login_local verify (users st) email password
        = Inr (None, Some (login_error_message NotFoundError))
      \<and> login_submit verify email password st
        = Inr (st, Some (login_error_message NotFoundError)))
   \<and> (get_user_by_email (users st) email = Some user \<and> u_provider user \<noteq> ''local'' \<longrightarrow>
      login_local verify (users st) email password
        = Inr (None, Some (login_error_message ProviderMismatchError))
      \<and> login_submit verify email password st
        = Inr (st, Some (login_error_message ProviderMismatchError)))
   \<and> (get_user_by_email (users st) email = Some user \<and> u_provider user = ''local''
        \<and> verify password (u_password_hash user) = Inr False \<longrightarrow>
      login_local verify (users st) email password
        = Inr (None, Some (login_error_message InvalidCredentialsError))
      \<and> login_submit verify email password st
        = Inr (st, Some (login_error_message InvalidCredentialsError)))
   \<and> (get_user_by_email (users st) email = Some user \<and> u_provider user = ''local''
        \<and> verify password (u_password_hash user) = Inr True \<longrightarrow>
      login_local verify (users st) email password = Inr (Some user, None)
      \<and> login_submit verify email password st
        = Inr (st\<lparr>session_user :=
                    Some \<lparr>i_id = u_id user, i_email = u_email user, i_name = u_name user,
                          i_provider = u_provider user\<rparr>\<rparr>, None))"
  by (simp add: login_local_def login_submit_def)

theorem login_checks_in_order_witness:
  "login_submit example_verify ''nobody@x.com'' ''secret1'' signed_out
     = Inr (signed_out, Some ''No account found for that email.'')
   \<and> login_submit example_verify ''B@X.com '' ''secret1'' signed_out
     = Inr (signed_out, Some (login_error_message ProviderMismatchError))
   \<and> login_submit example_verify '' A@x.com'' ''wrong'' signed_out
     = Inr (signed_out, Some ''Incorrect password.'')
   \<and> login_submit example_verify '' A@x.com'' ''secret1'' signed_out
     = Inr (signed_out\<lparr>session_user :=
              Some \<lparr>i_id = 1, i_email = ''a@x.com'', i_name = ''A'', i_provider = ''local''\<rparr>\<rparr>, None)"
proof -
  have u0: "get_user_by_email (users signed_out) ''nobody@x.com'' = None"
    by code_simp
  have u2: "get_user_by_email (users signed_out) ''B@X.com '' = Some example_google_user"
    by code_simp
  have u1: "get_user_by_email (users signed_out) '' A@x.com'' = Some example_user"
    by code_simp
  have p2: "u_provider example_google_user \<noteq> ''local''"
    by (simp add: example_google_user_def)
  have p1: "u_provider example_user = ''local''"
    by (simp add: example_user_def)
  have v0: "example_verify ''wrong'' (u_password_hash example_user) = Inr False"
    by (simp add: example_verify_def example_user_def)
  have v1: "example_verify ''secret1'' (u_password_hash example_user) = Inr True"
    by (simp add: example_verify_def example_user_def)
  from login_checks_in_order [of signed_out "''nobody@x.com''" example_verify "''secret1''"] u0
  have a: "login_submit example_verify ''nobody@x.com'' ''secret1'' signed_out
     = Inr (signed_out, Some ''No account found for that email.'')"
    by simp
  from login_checks_in_order [of signed_out "''B@X.com ''" example_verify "''secret1''"
      example_google_user] u2 p2
  have b: "login_submit example_verify ''B@X.com '' ''secret1'' signed_out
     = Inr (signed_out, Some (login_error_message ProviderMismatchError))"
    by simp
  from login_checks_in_order [of signed_out "'' A@x.com''" example_verify "''wrong''"
      example_user] u1 p1 v0
  have c: "login_submit example_verify '' A@x.com'' ''wrong'' signed_out
     = Inr (signed_out, Some ''Incorrect password.'')"
    by simp
  from login_checks_in_order [of signed_out "'' A@x.com''" example_verify "''secret1''"
      example_user] u1 p1 v1
  have d: "login_submit example_verify '' A@x.com'' ''secret1'' signed_out
     = Inr (signed_out\<lparr>session_user :=
              Some \<lparr>i_id = 1, i_email = ''a@x.com'', i_name = ''A'', i_provider = ''local''\<rparr>\<rparr>, None)"
    by (simp add: example_user_def)
  from a b c d show ?thesis by simp
qed

section \<open>Properties of the task operations\<close>

lemma find_map_if:
  assumes "\<And>x. P x \<Longrightarrow> P (f x)"
  shows "find P (map (\<lambda>x. if P x then f x else x) xs) = map_option f (find P xs)"
  using assms by (induction xs) auto

lemma set_keys_id [simp]: "t_id (set_keys upd t) = t_id t"
  by (simp add: set_keys_def)

lemma set_keys_user_id [simp]: "t_user_id (set_keys upd r) = t_user_id r"
  by (simp add: set_keys_def)

lemma set_keys_completed_at [simp]: "t_completed_at (set_keys upd t) = t_completed_at t"
  by (simp add: set_keys_def)

lemma set_keys_done:
  "t_done (set_keys upd t) = (case upd_done upd of None \<Rightarrow> t_done t | Some v \<Rightarrow> v)"
  by (simp add: set_keys_def)

lemma set_keys_priority:
  "t_priority (set_keys upd t) = (case upd_priority upd of None \<Rightarrow> t_priority t | Some v \<Rightarrow> v)"
  by (simp add: set_keys_def)

lemma find_users_update:
  assumes "\<And>x. u_id (g x) = u_id x"
  shows "find (\<lambda>u. u_id u = uid)
           (users (st\<lparr>users := map (\<lambda>x. if u_id x = uid then g x else x) us\<rparr>))
         = map_option g (find (\<lambda>u. u_id u = uid) us)"
proof -
  have "find (\<lambda>u. u_id u = uid) (map (\<lambda>x. if u_id x = uid then g x else x) us)
        = map_option g (find (\<lambda>u. u_id u = uid) us)"
    by (rule find_map_if) (simp add: assms)
  then show ?thesis by simp
qed

lemma no_fault_iff:
  "(f \<noteq> Some Connect \<and> f \<noteq> Some UpdateTasks \<and> f \<noteq> Some CommitTasks \<and> f \<noteq> Some SelectUser
    \<and> f \<noteq> Some SelectPriority \<and> f \<noteq> Some UpdateUser \<and> f \<noteq> Some CommitUser) = (f = None)"
proof (cases f)
  case None
  then show ?thesis by simp
next
  case (Some c)
  then show ?thesis by (cases c) simp_all
qed

lemma users_update_tasks_table [simp]:
  "users (update_tasks_table w uid task_id upd st) = users st"
  by (simp add: update_tasks_table_def)

lemma find_task_update_tasks_table:
  assumes "upd_done upd = Some True"
  shows "find (\<lambda>r. t_id r = task_id \<and> t_user_id r = uid)
           (tasks (update_tasks_table w uid task_id upd st))
         = map_option (\<lambda>r. (set_keys upd r)\<lparr>t_completed_at := Some (datetime_isoformat (now w))\<rparr>)
             (find (\<lambda>r. t_id r = task_id \<and> t_user_id r = uid) (tasks st))"
proof -
  have sel: "tasks (update_tasks_table w uid task_id upd st)
             = map (\<lambda>r. if t_id r = task_id \<and> t_user_id r = uid
                     then (set_keys upd r)\<lparr>t_completed_at := Some (datetime_isoformat (now w))\<rparr>
                     else r) (tasks st)"
    using assms by (simp add: update_tasks_table_def)
  show ?thesis
    unfolding sel by (rule find_map_if) simp
qed

text \<open>The ways in which the gamification block ends, for a user whose row exists.\<close>

lemma gamify_cases:
  assumes "find (\<lambda>u. u_id u = uid) (users st) = Some u"
  obtains
    (select_fails) "fault w = Some SelectUser \<or> fault w = Some SelectPriority"
      "gamify w uid task_id st = (st, Some OperationalError)"
  | (null_points) "u_points u = None"
      "gamify w uid task_id st = (st, Some TypeError)"
  | (no_yesterday) e where "date_add_days (dt_date (now w)) (- 1) = Inl e"
      "gamify w uid task_id st = (st, Some e)"
  | (overflow) p yesterday where "u_points u = Some p"
      "date_add_days (dt_date (now w)) (- 1) = Inr yesterday"
      "\<not> (fits_sqlite_int
            (p + (10 + priority_bonus
               (case find (\<lambda>t. t_id t = task_id \<and> t_user_id t = uid) (tasks st) of
                  Some t \<Rightarrow> t_priority t | None \<Rightarrow> Some ''Medium'')))
          \<and> fits_sqlite_value
              (new_streak (last_date_of w (u_last_complete_date u)) yesterday (dt_date (now w))
                 (u_streak u)))"
      "gamify w uid task_id st = (st, Some OverflowError)"
  | (write_fails) "fault w = Some UpdateUser \<or> fault w = Some CommitUser"
      "gamify w uid task_id st = (st, Some OperationalError)"
  | (stored) p yesterday where
      "fault w \<noteq> Some SelectUser" "fault w \<noteq> Some SelectPriority"
      "fault w \<noteq> Some UpdateUser" "fault w \<noteq> Some CommitUser"
      "u_points u = Some p"
      "date_add_days (dt_date (now w)) (- 1) = Inr yesterday"
      "fits_sqlite_int
         (p + (10 + priority_bonus
            (case find (\<lambda>t. t_id t = task_id \<and> t_user_id t = uid) (tasks st) of
               Some t \<Rightarrow> t_priority t | None \<Rightarrow> Some ''Medium'')))"
      "fits_sqlite_value
         (new_streak (last_date_of w (u_last_complete_date u)) yesterday (dt_date (now w))
            (u_streak u))"
      "gamify w uid task_id st
       = (st\<lparr>users :=
               map (\<lambda>x. if u_id x = uid
                         then x\<lparr>u_points :=
                                  Some (p + (10 + priority_bonus
                                     (case find (\<lambda>t. t_id t = task_id \<and> t_user_id t = uid)
                                             (tasks st) of
                                        Some t \<Rightarrow> t_priority t | None \<Rightarrow> Some ''Medium''))),
                                u_streak :=
                                  new_streak (last_date_of w (u_last_complete_date u)) yesterday
                                    (dt_date (now w)) (u_streak u),
                                u_last_complete_date := Some (date_isoformat (dt_date (now w)))\<rparr>
                         else x) (users st)\<rparr>, None)"
proof -
  let ?ok = "\<lambda>p yesterday. fits_sqlite_int
            (p + (10 + priority_bonus
               (case find (\<lambda>t. t_id t = task_id \<and> t_user_id t = uid) (tasks st) of
                  Some t \<Rightarrow> t_priority t | None \<Rightarrow> Some ''Medium'')))
          \<and> fits_sqlite_value
              (new_streak (last_date_of w (u_last_complete_date u)) yesterday (dt_date (now w))
                 (u_streak u))"
  consider (su) "fault w = Some SelectUser"
    | (sp) "fault w \<noteq> Some SelectUser" "fault w = Some SelectPriority"
    | (go) "fault w \<noteq> Some SelectUser" "fault w \<noteq> Some SelectPriority"
    by blast
  then show ?thesis
  proof cases
    case su
    then have "gamify w uid task_id st = (st, Some OperationalError)"
      by (simp add: gamify_def)
    with su show ?thesis by (intro select_fails) simp_all
  next
    case sp
    then have "gamify w uid task_id st = (st, Some OperationalError)"
      by (simp add: gamify_def Let_def)
    with sp show ?thesis by (intro select_fails) simp_all
  next
    case go
    show ?thesis
    proof (cases "u_points u")
      case None
      with go assms have "gamify w uid task_id st = (st, Some TypeError)"
        by (simp add: gamify_def Let_def)
      with None show ?thesis by (rule null_points)
    next
      case (Some p)
      show ?thesis
      proof (cases "date_add_days (dt_date (now w)) (- 1)")
        case (Inl e)
        with go assms Some have "gamify w uid task_id st = (st, Some e)"
          by (simp add: gamify_def Let_def)
        with Inl show ?thesis by (rule no_yesterday)
      next
        case (Inr yesterday)
        show ?thesis
        proof (cases "?ok p yesterday")
          case False
          with go assms Some Inr have "gamify w uid task_id st = (st, Some OverflowError)"
            by (simp add: gamify_def Let_def)
          with Some Inr False show ?thesis by (intro overflow) simp_all
        next
          case True
          show ?thesis
          proof (cases "fault w = Some UpdateUser \<or> fault w = Some CommitUser")
            case wf: True
            with go assms Some Inr True
            have "gamify w uid task_id st = (st, Some OperationalError)"
              by (simp add: gamify_def Let_def)
            with wf show ?thesis by (rule write_fails)
          next
            case nf: False
            with go assms Some Inr True
            have "gamify w uid task_id st
       = (st\<lparr>users :=
               map (\<lambda>x. if u_id x = uid
                         then x\<lparr>u_points :=
                                  Some (p + (10 + priority_bonus
                                     (case find (\<lambda>t. t_id t = task_id \<and> t_user_id t = uid)
                                             (tasks st) of
                                        Some t \<Rightarrow> t_priority t | None \<Rightarrow> Some ''Medium''))),
                                u_streak :=
                                  new_streak (last_date_of w (u_last_complete_date u)) yesterday
                                    (dt_date (now w)) (u_streak u),
                                u_last_complete_date := Some (date_isoformat (dt_date (now w)))\<rparr>
                         else x) (users st)\<rparr>, None)"
              by (simp add: gamify_def Let_def)
            with go nf Some Inr True show ?thesis by (intro stored) simp_all
          qed
        qed
      qed
    qed
  qed
qed

lemma gamify_shape:
  "(\<exists>e. gamify w uid task_id st = (st, Some e))
   \<or> (\<exists>g. gamify w uid task_id st
            = (st\<lparr>users := map (\<lambda>u. if u_id u = uid then g u else u) (users st)\<rparr>, None))"
proof -
  let ?row = "find (\<lambda>u. u_id u = uid) (users st)"
  let ?points = "case ?row of Some r \<Rightarrow> u_points r | None \<Rightarrow> Some 0"
  let ?streak = "case ?row of Some r \<Rightarrow> u_streak r | None \<Rightarrow> Some 0"
  let ?last = "last_date_of w (case ?row of Some r \<Rightarrow> u_last_complete_date r | None \<Rightarrow> None)"
  let ?bonus = "priority_bonus (case find (\<lambda>t. t_id t = task_id \<and> t_user_id t = uid) (tasks st) of
                                  Some t \<Rightarrow> t_priority t | None \<Rightarrow> Some ''Medium'')"
  consider (su) "fault w = Some SelectUser"
    | (sp) "fault w \<noteq> Some SelectUser" "fault w = Some SelectPriority"
    | (go) "fault w \<noteq> Some SelectUser" "fault w \<noteq> Some SelectPriority"
    by blast
  then show ?thesis
  proof cases
    case su
    then show ?thesis by (simp add: gamify_def)
  next
    case sp
    then show ?thesis by (simp add: gamify_def Let_def)
  next
    case go
    show ?thesis
    proof (cases ?points)
      case None
      with go show ?thesis by (simp add: gamify_def Let_def)
    next
      case (Some p)
      show ?thesis
      proof (cases "date_add_days (dt_date (now w)) (- 1)")
        case (Inl e)
        with go Some show ?thesis by (simp add: gamify_def Let_def)
      next
        case (Inr yesterday)
        let ?ok = "fits_sqlite_int (p + (10 + ?bonus))
                   \<and> fits_sqlite_value (new_streak ?last yesterday (dt_date (now w)) ?streak)"
        show ?thesis
        proof (cases ?ok)
          case False
          with go Some Inr show ?thesis by (simp add: gamify_def Let_def)
        next
          case True
          show ?thesis
          proof (cases "fault w = Some UpdateUser \<or> fault w = Some CommitUser")
            case True
            with go Some Inr \<open>?ok\<close> show ?thesis by (simp add: gamify_def Let_def)
          next
            case False
            with go Some Inr \<open>?ok\<close> have "\<exists>g. gamify w uid task_id st
              = (st\<lparr>users := map (\<lambda>u. if u_id u = uid then g u else u) (users st)\<rparr>, None)"
              by (simp add: gamify_def Let_def split del: if_split) (rule exI, rule refl)
            then show ?thesis ..
          qed
        qed
      qed
    qed
  qed
qed

lemma tasks_gamify [simp]: "tasks (fst (gamify w uid task_id st)) = tasks st"
  using gamify_shape [of w uid task_id st] by auto

lemma json_tasks_gamify [simp]: "json_tasks (fst (gamify w uid task_id st)) = json_tasks st"
  using gamify_shape [of w uid task_id st] by auto

lemma gamify_raises:
  "snd (gamify w uid task_id st) \<noteq> None \<Longrightarrow> fst (gamify w uid task_id st) = st"
  using gamify_shape [of w uid task_id st] by auto

lemma no_keys_done: "upd_done upd = Some b \<Longrightarrow> \<not> no_keys upd"
  by (simp add: no_keys_def)

lemma update_task_done:
  assumes "session_user st = Some ident" and "upd_done upd = Some True"
    and "fault w \<noteq> Some Connect" and "fault w \<noteq> Some UpdateTasks"
    and "fault w \<noteq> Some CommitTasks"
  shows "update_task w task_id upd st
         = gamify w (i_id ident) task_id (update_tasks_table w (i_id ident) task_id upd st)"
  using assms by (simp add: update_task_def update_task_db_def no_keys_done Let_def)

lemma update_task_not_committed:
  assumes "session_user st = Some ident"
    and "fault w = Some Connect \<or> fault w = Some UpdateTasks \<or> fault w = Some CommitTasks"
  shows "update_task w task_id upd st = (st, Some OperationalError)"
  using assms by (auto simp: update_task_def update_task_db_def)

text \<open>
  C4, as the code has it.  On a genuine false\<rightarrow>true transition of the done flag
  of a task of the signed-in user (whose points and streak are numbers, on a day
  that has a yesterday), whenever the call returns normally the user's row has
  changed in exactly three columns: the points have grown by 10 plus the bonus of
  the task's priority (High 5, Medium 2, Low 0); the streak has become streak + 1
  when the last completion date is today - 1 day, has stayed when it is today, and
  has become 1 otherwise; the last completion date has become today.  The call
  returns normally exactly when the database does not fail and the new points and
  the new streak fit SQLite's 64-bit \<open>INTEGER\<close>.
\<close>

theorem completion_awards_points:
  assumes "session_user st = Some ident"
    and "find (\<lambda>u. u_id u = i_id ident) (users st) = Some u"
    and "u_points u = Some p" and "u_streak u = Some s"
    and "find (\<lambda>r. t_id r = task_id \<and> t_user_id r = i_id ident) (tasks st) = Some t"
    and "\<not> t_done t"
    and "upd_done upd = Some True"
    and "1 < dt_date (now w)" and "dt_date (now w) \<le> MAXORDINAL"
  shows "(snd (update_task w task_id upd st) = None
          \<longleftrightarrow> fault w = None
              \<and> fits_sqlite_int
                  (p + 10 + priority_bonus
                     (case upd_priority upd of None \<Rightarrow> t_priority t | Some v \<Rightarrow> v))
              \<and> fits_sqlite_int
                  (if last_date_of w (u_last_complete_date u) = Some (dt_date (now w) - 1)
                   then s + 1
                   else if last_date_of w (u_last_complete_date u) = Some (dt_date (now w))
                   then s else 1))
     \<and> (snd (update_task w task_id upd st) = None \<longrightarrow>
          find (\<lambda>u. u_id u = i_id ident) (users (fst (update_task w task_id upd st)))
          = Some (u\<lparr>u_points :=
                       Some (p + 10 + priority_bonus
                               (case upd_priority upd of None \<Rightarrow> t_priority t | Some v \<Rightarrow> v)),
                     u_streak :=
                       Some (if last_date_of w (u_last_complete_date u)
                                = Some (dt_date (now w) - 1)
                             then s + 1
                             else if last_date_of w (u_last_complete_date u)
                                     = Some (dt_date (now w))
                             then s else 1),
                     u_last_complete_date := Some (date_isoformat (dt_date (now w)))\<rparr>))
     \<and> priority_bonus (Some ''High'') = 5
     \<and> priority_bonus (Some ''Medium'') = 2
     \<and> priority_bonus (Some ''Low'') = 0"
proof -
  let ?uid = "i_id ident"
  let ?st1 = "update_tasks_table w ?uid task_id upd st"
  let ?R = "update_task w task_id upd st"
  let ?prio = "case upd_priority upd of None \<Rightarrow> t_priority t | Some v \<Rightarrow> v"
  let ?S = "if last_date_of w (u_last_complete_date u) = Some (dt_date (now w) - 1)
            then s + 1
            else if last_date_of w (u_last_complete_date u) = Some (dt_date (now w))
            then s else 1"
  let ?row = "u\<lparr>u_points := Some (p + 10 + priority_bonus ?prio), u_streak := Some ?S,
                u_last_complete_date := Some (date_isoformat (dt_date (now w)))\<rparr>"
  have bonus: "priority_bonus (Some ''High'') = 5" "priority_bonus (Some ''Medium'') = 2"
    "priority_bonus (Some ''Low'') = 0"
    by (simp_all add: priority_bonus_def)
  have main: "(snd ?R = None \<longleftrightarrow> fault w = None \<and> fits_sqlite_int (p + 10 + priority_bonus ?prio)
                 \<and> fits_sqlite_int ?S)
     \<and> (snd ?R = None \<longrightarrow> find (\<lambda>u. u_id u = ?uid) (users (fst ?R)) = Some ?row)"
  proof (cases "fault w = Some Connect \<or> fault w = Some UpdateTasks \<or> fault w = Some CommitTasks")
    case True
    with assms(1) have "?R = (st, Some OperationalError)"
      by (rule update_task_not_committed)
    with True show ?thesis by auto
  next
    case False
    then have nf: "fault w \<noteq> Some Connect" "fault w \<noteq> Some UpdateTasks"
      "fault w \<noteq> Some CommitTasks"
      by simp_all
    have run: "?R = gamify w ?uid task_id ?st1"
      using assms(1,7) nf by (rule update_task_done)
    have y: "date_add_days (dt_date (now w)) (- 1) = Inr (dt_date (now w) - 1)"
      using assms(8,9) by (simp add: date_add_days_def MAXORDINAL_def)
    have u1: "find (\<lambda>u. u_id u = ?uid) (users ?st1) = Some u"
      using assms(2) by simp
    have t1: "find (\<lambda>r. t_id r = task_id \<and> t_user_id r = ?uid) (tasks ?st1)
              = Some ((set_keys upd t)\<lparr>t_completed_at := Some (datetime_isoformat (now w))\<rparr>)"
      using find_task_update_tasks_table [OF assms(7), of task_id ?uid w st] assms(5) by simp
    have P: "p + (10 + priority_bonus
               (case find (\<lambda>r. t_id r = task_id \<and> t_user_id r = ?uid) (tasks ?st1) of
                  Some t \<Rightarrow> t_priority t | None \<Rightarrow> Some ''Medium''))
             = p + 10 + priority_bonus ?prio"
      by (simp add: t1 set_keys_priority)
    have S: "new_streak (last_date_of w (u_last_complete_date u)) (dt_date (now w) - 1)
               (dt_date (now w)) (u_streak u) = Some ?S"
      using assms(4) by (simp add: new_streak_def)
    from u1 show ?thesis
    proof (cases rule: gamify_cases [where w = w and task_id = task_id])
      case select_fails
      then show ?thesis by (auto simp: run)
    next
      case null_points
      with assms(3) show ?thesis by simp
    next
      case (no_yesterday e)
      with y show ?thesis by simp
    next
      case (overflow p' yesterday)
      with assms(3) y have "p' = p" "yesterday = dt_date (now w) - 1"
        by simp_all
      with overflow(3,4) P S show ?thesis
        by (auto simp: run fits_sqlite_value_def)
    next
      case write_fails
      then show ?thesis by (auto simp: run)
    next
      case (stored p' yesterday)
      with assms(3) y have eq: "p' = p" "yesterday = dt_date (now w) - 1"
        by simp_all
      from stored(1-4) nf have none: "fault w = None"
        using no_fault_iff [of "fault w"] by simp
      have fits: "fits_sqlite_int (p + 10 + priority_bonus ?prio)" "fits_sqlite_int ?S"
        using stored(7,8) eq P S by (simp_all add: fits_sqlite_value_def)
      have "find (\<lambda>u. u_id u = ?uid) (users (fst ?R))
            = map_option (\<lambda>x. x\<lparr>u_points := Some (p + 10 + priority_bonus ?prio),
                                 u_streak := Some ?S,
                                 u_last_complete_date := Some (date_isoformat (dt_date (now w)))\<rparr>)
                (find (\<lambda>u. u_id u = ?uid) (users ?st1))"
        unfolding run stored(9) eq P S fst_conv
        by (rule find_users_update) simp
      then have "find (\<lambda>u. u_id u = ?uid) (users (fst ?R)) = Some ?row"
        using u1 by simp
      moreover have "snd ?R = None"
        by (simp add: run stored(9))
      ultimately show ?thesis
        using none fits by simp
    qed
  qed
  from main bonus show ?thesis by simp
qed

theorem completion_awards_points_witness:
  "snd (update_task at_10_00 ''t1'' (set_done True) signed_in) = None
   \<and> find (\<lambda>u. u_id u = 1) (users (fst (update_task at_10_00 ''t1'' (set_done True) signed_in)))
     = Some (example_user\<lparr>u_points := Some 55, u_streak := Some 4,
                          u_last_complete_date := Some ''2024-01-15''\<rparr>)"
proof -
  let ?ident = "\<lparr>i_id = 1, i_email = ''a@x.com'', i_name = ''A'', i_provider = ''local''\<rparr>"
  have a1: "session_user signed_in = Some ?ident"
    by (simp add: signed_in_def)
  have a2: "find (\<lambda>u. u_id u = i_id ?ident) (users signed_in) = Some example_user"
    by (simp add: signed_in_def example_user_def)
  have a3: "u_points example_user = Some 40" and a4: "u_streak example_user = Some 3"
    by (simp_all add: example_user_def)
  have a5: "find (\<lambda>r. t_id r = ''t1'' \<and> t_user_id r = i_id ?ident) (tasks signed_in)
            = Some example_task"
    by (simp add: signed_in_def example_task_def)
  have a6: "\<not> t_done example_task"
    by (simp add: example_task_def)
  have a7: "upd_done (set_done True) = Some True"
    by (simp add: set_done_def)
  have a8: "1 < dt_date (now at_10_00)" and a9: "dt_date (now at_10_00) \<le> MAXORDINAL"
    by (simp_all add: at_10_00_def MAXORDINAL_def)
  have l: "last_date_of at_10_00 (u_last_complete_date example_user) = Some 738899"
    by code_simp
  have d: "date_isoformat 738900 = ''2024-01-15''"
    by code_simp
  have p: "upd_priority (set_done True) = None" "t_priority example_task = Some ''High''"
    by (simp_all add: set_done_def example_task_def)
  have f: "fault at_10_00 = None" "dt_date (now at_10_00) = 738900"
    by (simp_all add: at_10_00_def)
  from completion_awards_points [OF a1 a2 a3 a4 a5 a6 a7 a8 a9]
  show ?thesis
    by (simp add: l d p f fits_sqlite_int_def)
qed

text \<open>
  C4 as stated fails: a user with 9223372036854775800 points completes a task of
  priority High; the new total does not fit the column, the update of the user's
  row raises \<open>OverflowError\<close> after the task is committed as done, and the points
  have not grown.
\<close>

theorem completion_overflow_counterexample:
  "update_task at_10_00 ''t1'' (set_done True) near_limit
   = (near_limit\<lparr>tasks := [example_task\<lparr>t_done := True,
                               t_completed_at := Some ''2024-01-15T10:00:00''\<rparr>, other_task]\<rparr>,
      Some OverflowError)"
  by code_simp

lemma completed_have_timestamp_update_task:
  assumes "completed_have_timestamp st"
  shows "completed_have_timestamp (fst (update_task w task_id upd st))"
proof (cases "session_user st")
  case None
  then have "fst (update_task w task_id upd st) = update_task_json w task_id upd st"
    by (simp add: update_task_def)
  moreover have "completed_have_timestamp (update_task_json w task_id upd st)"
    using assms
    by (auto simp: completed_have_timestamp_def update_task_json_def Let_def set_keys_done
             split: option.splits)
  ultimately show ?thesis by simp
next
  case (Some ident)
  let ?st1 = "update_tasks_table w (i_id ident) task_id upd st"
  have st1: "completed_have_timestamp ?st1"
    using assms
    by (auto simp: completed_have_timestamp_def update_tasks_table_def set_keys_done
             split: option.splits if_splits)
  have "fst (update_task w task_id upd st) = st
        \<or> fst (update_task w task_id upd st) = ?st1
        \<or> fst (update_task w task_id upd st) = fst (gamify w (i_id ident) task_id ?st1)"
    using Some by (simp add: update_task_def update_task_db_def Let_def)
  moreover have "completed_have_timestamp (fst (gamify w (i_id ident) task_id ?st1))"
    using st1 by (simp add: completed_have_timestamp_def)
  ultimately show ?thesis
    using assms st1 by auto
qed

lemma completed_have_timestamp_update_tasks:
  "completed_have_timestamp st \<Longrightarrow> completed_have_timestamp (update_tasks calls st)"
proof (induction calls arbitrary: st)
  case Nil
  then show ?case by simp
next
  case (Cons call calls)
  obtain w task_id upd where call: "call = (w, task_id, upd)"
    by (cases call) auto
  from Cons.prems have "completed_have_timestamp (fst (update_task w task_id upd st))"
    by (rule completed_have_timestamp_update_task)
  then show ?case
    using Cons.IH call by simp
qed

lemma update_task_keeps_timestamps:
  assumes "upd_done upd \<noteq> Some True"
  shows "map t_completed_at (tasks (fst (update_task w task_id upd st)))
           = map t_completed_at (tasks st)"
    and "map t_completed_at (json_tasks (fst (update_task w task_id upd st)))
           = map t_completed_at (json_tasks st)"
  using assms
  by (auto simp: update_task_def update_task_db_def update_task_json_def update_tasks_table_def
                 Let_def split: option.splits)

lemma update_task_keeps_done:
  assumes "upd_done upd = None"
  shows "map t_done (tasks (fst (update_task w task_id upd st))) = map t_done (tasks st)"
    and "map t_done (json_tasks (fst (update_task w task_id upd st)))
           = map t_done (json_tasks st)"
  using assms
  by (auto simp: update_task_def update_task_db_def update_task_json_def update_tasks_table_def
                 Let_def set_keys_done split: option.splits)

lemma find_json_task_update:
  "find (\<lambda>t. t_id t = task_id) (json_tasks (update_task_json w task_id upd st))
   = map_option (\<lambda>t. if upd_done upd = Some True \<and> \<not> t_done t
                       then (set_keys upd t)\<lparr>t_completed_at := Some (datetime_isoformat (now w))\<rparr>
                       else set_keys upd t)
       (find (\<lambda>t. t_id t = task_id) (json_tasks st))"
proof -
  have sel: "json_tasks (update_task_json w task_id upd st)
             = map (\<lambda>t. if t_id t = task_id
                         then (if upd_done upd = Some True \<and> \<not> t_done t
                               then (set_keys upd t)\<lparr>t_completed_at :=
                                                       Some (datetime_isoformat (now w))\<rparr>
                               else set_keys upd t)
                         else t) (json_tasks st)"
    by (simp add: update_task_json_def Let_def)
  show ?thesis
    unfolding sel by (rule find_map_if) simp
qed

text \<open>
  C3, as the code has it.  Over every sequence of updates a task that is done has a
  completion timestamp (if that holds at the start, as for new tasks).  An update
  that does not set done to true changes no completion timestamp, and one that does
  not pass done changes no done flag either: an edit of other fields neither clears
  nor overwrites the timestamp.  The update on which done goes from false to true
  sets the timestamp to the time of the call, in the database (once the update of
  the task is committed) and in the JSON store.  (A timestamp is never cleared, so
  it can outlive the done flag.)
\<close>

theorem completion_timestamp_kept:
  "(completed_have_timestamp st \<longrightarrow> completed_have_timestamp (update_tasks calls st))
   \<and> (upd_done upd \<noteq> Some True \<longrightarrow>
        map t_completed_at (tasks (fst (update_task w task_id upd st)))
          = map t_completed_at (tasks st)
        \<and> map t_completed_at (json_tasks (fst (update_task w task_id upd st)))
          = map t_completed_at (json_tasks st))
   \<and> (upd_done upd = None \<longrightarrow>
        map t_done (tasks (fst (update_task w task_id upd st))) = map t_done (tasks st)
        \<and> map t_done (json_tasks (fst (update_task w task_id upd st)))
          = map t_done (json_tasks st))
   \<and> (session_user st = Some ident
        \<and> find (\<lambda>r. t_id r = task_id \<and> t_user_id r = i_id ident) (tasks st) = Some r
        \<and> \<not> t_done r \<and> upd_done upd = Some True
        \<and> fault w \<noteq> Some Connect \<and> fault w \<noteq> Some UpdateTasks
        \<and> fault w \<noteq> Some CommitTasks \<longrightarrow>
        find (\<lambda>r. t_id r = task_id \<and> t_user_id r = i_id ident)
          (tasks (fst (update_task w task_id upd st)))
        = Some ((set_keys upd r)\<lparr>t_completed_at := Some (datetime_isoformat (now w))\<rparr>)
        \<and> t_done (set_keys upd r))
   \<and> (session_user st = None
        \<and> find (\<lambda>t. t_id t = task_id) (json_tasks st) = Some t
        \<and> \<not> t_done t \<and> upd_done upd = Some True \<longrightarrow>
        find (\<lambda>t. t_id t = task_id) (json_tasks (fst (update_task w task_id upd st)))
        = Some ((set_keys upd t)\<lparr>t_completed_at := Some (datetime_isoformat (now w))\<rparr>)
        \<and> t_done (set_keys upd t))"
proof (intro conjI impI)
  assume "completed_have_timestamp st"
  then show "completed_have_timestamp (update_tasks calls st)"
    by (rule completed_have_timestamp_update_tasks)
next
  assume "upd_done upd \<noteq> Some True"
  then show "map t_completed_at (tasks (fst (update_task w task_id upd st)))
          = map t_completed_at (tasks st)"
    and "map t_completed_at (json_tasks (fst (update_task w task_id upd st)))
          = map t_completed_at (json_tasks st)"
    by (rule update_task_keeps_timestamps)+
next
  assume "upd_done upd = None"
  then show "map t_done (tasks (fst (update_task w task_id upd st))) = map t_done (tasks st)"
    and "map t_done (json_tasks (fst (update_task w task_id upd st)))
          = map t_done (json_tasks st)"
    by (rule update_task_keeps_done)+
next
  assume a: "session_user st = Some ident
        \<and> find (\<lambda>r. t_id r = task_id \<and> t_user_id r = i_id ident) (tasks st) = Some r
        \<and> \<not> t_done r \<and> upd_done upd = Some True
        \<and> fault w \<noteq> Some Connect \<and> fault w \<noteq> Some UpdateTasks
        \<and> fault w \<noteq> Some CommitTasks"
  then have run: "update_task w task_id upd st
         = gamify w (i_id ident) task_id (update_tasks_table w (i_id ident) task_id upd st)"
    by (simp add: update_task_done)
  from a have d: "upd_done upd = Some True" by simp
  show "find (\<lambda>r. t_id r = task_id \<and> t_user_id r = i_id ident)
          (tasks (fst (update_task w task_id upd st)))
        = Some ((set_keys upd r)\<lparr>t_completed_at := Some (datetime_isoformat (now w))\<rparr>)"
    using a find_task_update_tasks_table [OF d, of task_id "i_id ident" w st]
    by (simp add: run)
  show "t_done (set_keys upd r)"
    using d by (simp add: set_keys_done)
next
  assume a: "session_user st = None
        \<and> find (\<lambda>t. t_id t = task_id) (json_tasks st) = Some t
        \<and> \<not> t_done t \<and> upd_done upd = Some True"
  then have run: "fst (update_task w task_id upd st) = update_task_json w task_id upd st"
    by (simp add: update_task_def)
  show "find (\<lambda>t. t_id t = task_id) (json_tasks (fst (update_task w task_id upd st)))
        = Some ((set_keys upd t)\<lparr>t_completed_at := Some (datetime_isoformat (now w))\<rparr>)"
    using a by (simp add: run find_json_task_update)
  show "t_done (set_keys upd t)"
    using a by (simp add: set_keys_done)
qed

theorem completion_timestamp_kept_witness:
  "completed_have_timestamp signed_in
   \<and> completed_have_timestamp
       (update_tasks [(at_10_00, ''t1'', set_done True), (at_10_05, ''t1'', set_done False)]
          signed_in)
   \<and> map t_completed_at (tasks (fst (update_task at_10_05 ''t1'' (set_title ''Pay the rent'')
                                        (fst (update_task at_10_00 ''t1'' (set_done True) signed_in)))))
     = [Some ''2024-01-15T10:00:00'', None]
   \<and> map t_done (tasks (fst (update_task at_10_05 ''t1'' (set_title ''Pay the rent'')
                               (fst (update_task at_10_00 ''t1'' (set_done True) signed_in)))))
     = [True, False]
   \<and> find (\<lambda>r. t_id r = ''t1'' \<and> t_user_id r = 1)
       (tasks (fst (update_task at_10_00 ''t1'' (set_done True) signed_in)))
     = Some (example_task\<lparr>t_done := True, t_completed_at := Some ''2024-01-15T10:00:00''\<rparr>)
   \<and> find (\<lambda>t. t_id t = ''j1'')
       (json_tasks (fst (update_task at_10_00 ''j1'' (set_done True) signed_out_json)))
     = Some (example_json_task\<lparr>t_done := True, t_completed_at := Some ''2024-01-15T10:00:00''\<rparr>)"
proof -
  let ?ident = "\<lparr>i_id = 1, i_email = ''a@x.com'', i_name = ''A'', i_provider = ''local''\<rparr>"
  let ?st1 = "fst (update_task at_10_00 ''t1'' (set_done True) signed_in)"
  have inv: "completed_have_timestamp signed_in"
    by (simp add: completed_have_timestamp_def signed_in_def example_task_def other_task_def)
  have iso: "datetime_isoformat (now at_10_00) = ''2024-01-15T10:00:00''"
    by code_simp
  have st1: "tasks ?st1 = [example_task\<lparr>t_done := True,
                              t_completed_at := Some ''2024-01-15T10:00:00''\<rparr>, other_task]"
    by code_simp
  have nd: "upd_done (set_title ''Pay the rent'') \<noteq> Some True"
    "upd_done (set_title ''Pay the rent'') = None"
    by (simp_all add: set_title_def)
  have db: "session_user signed_in = Some ?ident
        \<and> find (\<lambda>r. t_id r = ''t1'' \<and> t_user_id r = i_id ?ident) (tasks signed_in)
            = Some example_task
        \<and> \<not> t_done example_task \<and> upd_done (set_done True) = Some True
        \<and> fault at_10_00 \<noteq> Some Connect \<and> fault at_10_00 \<noteq> Some UpdateTasks
        \<and> fault at_10_00 \<noteq> Some CommitTasks"
    by (simp add: signed_in_def example_task_def set_done_def at_10_00_def)
  have js: "session_user signed_out_json = None
        \<and> find (\<lambda>t. t_id t = ''j1'') (json_tasks signed_out_json) = Some example_json_task
        \<and> \<not> t_done example_json_task \<and> upd_done (set_done True) = Some True"
    by (simp add: signed_out_json_def example_json_task_def set_done_def)
  have k1: "set_keys (set_done True) example_task = example_task\<lparr>t_done := True\<rparr>"
    by (simp add: set_keys_def set_done_def)
  have k2: "set_keys (set_done True) example_json_task = example_json_task\<lparr>t_done := True\<rparr>"
    by (simp add: set_keys_def set_done_def)
  note thm1 = completion_timestamp_kept
    [of signed_in "[(at_10_00, ''t1'', set_done True), (at_10_05, ''t1'', set_done False)]"
        "set_done True" at_10_00 "''t1''" ?ident example_task example_json_task]
  note thm2 = completion_timestamp_kept
    [of ?st1 "[]" "set_title ''Pay the rent''" at_10_05 "''t1''" ?ident example_task
        example_json_task]
  note thm3 = completion_timestamp_kept
    [of signed_out_json "[]" "set_done True" at_10_00 "''j1''" ?ident example_task
        example_json_task]
  from thm1 inv have c1: "completed_have_timestamp
       (update_tasks [(at_10_00, ''t1'', set_done True), (at_10_05, ''t1'', set_done False)]
          signed_in)"
    by blast
  from thm2 nd have c2: "map t_completed_at (tasks (fst (update_task at_10_05 ''t1''
        (set_title ''Pay the rent'') ?st1))) = map t_completed_at (tasks ?st1)"
    and c3: "map t_done (tasks (fst (update_task at_10_05 ''t1''
        (set_title ''Pay the rent'') ?st1))) = map t_done (tasks ?st1)"
    by blast+
  from thm1 db have c4: "find (\<lambda>r. t_id r = ''t1'' \<and> t_user_id r = i_id ?ident) (tasks ?st1)
     = Some ((set_keys (set_done True) example_task)\<lparr>t_completed_at :=
               Some (datetime_isoformat (now at_10_00))\<rparr>)"
    by blast
  from thm3 js have c5: "find (\<lambda>t. t_id t = ''j1'')
       (json_tasks (fst (update_task at_10_00 ''j1'' (set_done True) signed_out_json)))
     = Some ((set_keys (set_done True) example_json_task)\<lparr>t_completed_at :=
               Some (datetime_isoformat (now at_10_00))\<rparr>)"
    by blast
  have e: "map t_completed_at (tasks ?st1) = [Some ''2024-01-15T10:00:00'', None]"
    "map t_done (tasks ?st1) = [True, False]"
    by (simp_all add: st1 other_task_def)
  from inv c1 c2 c3 c4 c5 show ?thesis
    by (simp add: e iso k1 k2)
qed

text \<open>
  C3 as stated fails: after completing the task and then setting done back to
  false, the task is not done and still has its completion timestamp.
\<close>

theorem uncompleted_keeps_timestamp_counterexample:
  "tasks (update_tasks [(at_10_00, ''t1'', set_done True), (at_10_05, ''t1'', set_done False)]
            signed_in)
   = [example_task\<lparr>t_done := False, t_completed_at := Some ''2024-01-15T10:00:00''\<rparr>,
      other_task]"
  by code_simp

text \<open>
  C6, as the code has it.  Completing a task of the signed-in user commits twice:
  first the task row, then the user row.  When the database fails up to the first
  commit nothing is stored.  Once the first commit is made the task's completion is
  stored whatever happens after it.  When the call returns normally, the user's
  points, streak and last completion date are stored as well; when it raises, the
  users table is as before.  The call raises when the database fails at a call
  after the first commit: the completion is then stored and no points are awarded.
\<close>

theorem completion_two_commits:
  assumes "session_user st = Some ident"
    and "find (\<lambda>u. u_id u = i_id ident) (users st) = Some u"
    and "find (\<lambda>r. t_id r = task_id \<and> t_user_id r = i_id ident) (tasks st) = Some r"
    and "upd_done upd = Some True"
  shows "(fault w = Some Connect \<or> fault w = Some UpdateTasks \<or> fault w = Some CommitTasks
          \<longrightarrow> update_task w task_id upd st = (st, Some OperationalError))
     \<and> (fault w \<noteq> Some Connect \<and> fault w \<noteq> Some UpdateTasks \<and> fault w \<noteq> Some CommitTasks
          \<longrightarrow> find (\<lambda>r. t_id r = task_id \<and> t_user_id r = i_id ident)
                (tasks (fst (update_task w task_id upd st)))
              = Some ((set_keys upd r)\<lparr>t_completed_at := Some (datetime_isoformat (now w))\<rparr>))
     \<and> (snd (update_task w task_id upd st) = None \<longrightarrow>
          (\<exists>p yesterday.
             u_points u = Some p
             \<and> date_add_days (dt_date (now w)) (- 1) = Inr yesterday
             \<and> find (\<lambda>u. u_id u = i_id ident) (users (fst (update_task w task_id upd st)))
               = Some (u\<lparr>u_points :=
                            Some (p + 10 + priority_bonus (t_priority (set_keys upd r))),
                          u_streak :=
                            new_streak (last_date_of w (u_last_complete_date u)) yesterday
                              (dt_date (now w)) (u_streak u),
                          u_last_complete_date := Some (date_isoformat (dt_date (now w)))\<rparr>)))
     \<and> (snd (update_task w task_id upd st) \<noteq> None \<longrightarrow>
          users (fst (update_task w task_id upd st)) = users st)
     \<and> (fault w = Some SelectUser \<or> fault w = Some SelectPriority
          \<or> fault w = Some UpdateUser \<or> fault w = Some CommitUser
          \<longrightarrow> snd (update_task w task_id upd st) \<noteq> None)"
proof (cases "fault w = Some Connect \<or> fault w = Some UpdateTasks \<or> fault w = Some CommitTasks")
  case True
  with assms(1) have "update_task w task_id upd st = (st, Some OperationalError)"
    by (rule update_task_not_committed)
  with True show ?thesis by auto
next
  case False
  let ?uid = "i_id ident"
  let ?st1 = "update_tasks_table w ?uid task_id upd st"
  let ?R = "update_task w task_id upd st"
  from False have nf: "fault w \<noteq> Some Connect" "fault w \<noteq> Some UpdateTasks"
    "fault w \<noteq> Some CommitTasks"
    by simp_all
  have run: "?R = gamify w ?uid task_id ?st1"
    using assms(1,4) nf by (rule update_task_done)
  have u1: "find (\<lambda>u. u_id u = ?uid) (users ?st1) = Some u"
    using assms(2) by simp
  have t1: "find (\<lambda>r. t_id r = task_id \<and> t_user_id r = ?uid) (tasks ?st1)
            = Some ((set_keys upd r)\<lparr>t_completed_at := Some (datetime_isoformat (now w))\<rparr>)"
    using find_task_update_tasks_table [OF assms(4), of task_id ?uid w st] assms(3) by simp
  have first: "find (\<lambda>r. t_id r = task_id \<and> t_user_id r = ?uid) (tasks (fst ?R))
               = Some ((set_keys upd r)\<lparr>t_completed_at := Some (datetime_isoformat (now w))\<rparr>)"
    using t1 by (simp add: run)
  have raised: "users (fst ?R) = users st" if "snd ?R \<noteq> None"
    using that gamify_raises [of w ?uid task_id ?st1] by (simp add: run)
  have rest: "(snd ?R = None \<longrightarrow>
          (\<exists>p yesterday.
             u_points u = Some p
             \<and> date_add_days (dt_date (now w)) (- 1) = Inr yesterday
             \<and> find (\<lambda>u. u_id u = ?uid) (users (fst ?R))
               = Some (u\<lparr>u_points :=
                            Some (p + 10 + priority_bonus (t_priority (set_keys upd r))),
                          u_streak :=
                            new_streak (last_date_of w (u_last_complete_date u)) yesterday
                              (dt_date (now w)) (u_streak u),
                          u_last_complete_date := Some (date_isoformat (dt_date (now w)))\<rparr>)))
     \<and> (fault w = Some SelectUser \<or> fault w = Some SelectPriority
          \<or> fault w = Some UpdateUser \<or> fault w = Some CommitUser
          \<longrightarrow> snd ?R \<noteq> None)"
    using u1
  proof (cases rule: gamify_cases [where w = w and task_id = task_id])
    case select_fails
    then show ?thesis by (simp add: run)
  next
    case null_points
    then show ?thesis by (simp add: run)
  next
    case (no_yesterday e)
    then show ?thesis by (simp add: run)
  next
    case (overflow p yesterday)
    then show ?thesis by (simp add: run)
  next
    case write_fails
    then show ?thesis by (simp add: run)
  next
    case (stored p yesterday)
    have P: "p + (10 + priority_bonus
               (case find (\<lambda>r. t_id r = task_id \<and> t_user_id r = ?uid) (tasks ?st1) of
                  Some t \<Rightarrow> t_priority t | None \<Rightarrow> Some ''Medium''))
             = p + 10 + priority_bonus (t_priority (set_keys upd r))"
      by (simp add: t1)
    have "find (\<lambda>u. u_id u = ?uid) (users (fst ?R))
          = map_option (\<lambda>x. x\<lparr>u_points :=
                                 Some (p + 10 + priority_bonus (t_priority (set_keys upd r))),
                               u_streak :=
                                 new_streak (last_date_of w (u_last_complete_date u)) yesterday
                                   (dt_date (now w)) (u_streak u),
                               u_last_complete_date := Some (date_isoformat (dt_date (now w)))\<rparr>)
              (find (\<lambda>u. u_id u = ?uid) (users ?st1))"
      unfolding run stored(9) P fst_conv
      by (rule find_users_update) simp
    then have "find (\<lambda>u. u_id u = ?uid) (users (fst ?R))
          = Some (u\<lparr>u_points :=
                       Some (p + 10 + priority_bonus (t_priority (set_keys upd r))),
                     u_streak :=
                       new_streak (last_date_of w (u_last_complete_date u)) yesterday
                         (dt_date (now w)) (u_streak u),
                     u_last_complete_date := Some (date_isoformat (dt_date (now w)))\<rparr>)"
      using u1 by simp
    with stored(1-6) show ?thesis by simp
  qed
  from False first raised rest show ?thesis by blast
qed

theorem completion_two_commits_witness:
  "update_task at_10_00_failing ''t1'' (set_done True) signed_in
     = (signed_in\<lparr>tasks := [example_task\<lparr>t_done := True,
                               t_completed_at := Some ''2024-01-15T10:00:00''\<rparr>, other_task]\<rparr>,
        Some OperationalError)
   \<and> snd (update_task at_10_00 ''t1'' (set_done True) signed_in) = None
   \<and> find (\<lambda>r. t_id r = ''t1'' \<and> t_user_id r = 1)
       (tasks (fst (update_task at_10_00 ''t1'' (set_done True) signed_in)))
     = Some (example_task\<lparr>t_done := True, t_completed_at := Some ''2024-01-15T10:00:00''\<rparr>)
   \<and> find (\<lambda>u. u_id u = 1) (users (fst (update_task at_10_00 ''t1'' (set_done True) signed_in)))
     = Some (example_user\<lparr>u_points := Some 55, u_streak := Some 4,
                          u_last_complete_date := Some ''2024-01-15''\<rparr>)"
proof -
  let ?ident = "\<lparr>i_id = 1, i_email = ''a@x.com'', i_name = ''A'', i_provider = ''local''\<rparr>"
  have s1: "session_user signed_in = Some ?ident"
    by (simp add: signed_in_def)
  have s2: "find (\<lambda>u. u_id u = i_id ?ident) (users signed_in) = Some example_user"
    by (simp add: signed_in_def example_user_def)
  have s3: "find (\<lambda>r. t_id r = ''t1'' \<and> t_user_id r = i_id ?ident) (tasks signed_in)
            = Some example_task"
    by (simp add: signed_in_def example_task_def)
  have d: "upd_done (set_done True) = Some True"
    by (simp add: set_done_def)
  have k: "set_keys (set_done True) example_task = example_task\<lparr>t_done := True\<rparr>"
    by (simp add: set_keys_def set_done_def)
  have iso: "datetime_isoformat (now at_10_00) = ''2024-01-15T10:00:00''"
    "date_isoformat (dt_date (now at_10_00)) = ''2024-01-15''"
    by code_simp+
  have f: "fault at_10_00_failing = Some UpdateUser" "fault at_10_00 = None"
    by (simp_all add: at_10_00_failing_def at_10_00_def)
  have val: "update_task at_10_00_failing ''t1'' (set_done True) signed_in
     = (signed_in\<lparr>tasks := [example_task\<lparr>t_done := True,
                               t_completed_at := Some ''2024-01-15T10:00:00''\<rparr>, other_task]\<rparr>,
        Some OperationalError)"
    by code_simp
  have ret: "snd (update_task at_10_00 ''t1'' (set_done True) signed_in) = None"
    by code_simp
  have y: "date_add_days (dt_date (now at_10_00)) (- 1) = Inr 738899"
    by (simp add: date_add_days_def MAXORDINAL_def at_10_00_def)
  have l: "last_date_of at_10_00 (u_last_complete_date example_user) = Some 738899"
    by code_simp
  from completion_two_commits [OF s1 s2 s3 d, of at_10_00_failing] f
  have "snd (update_task at_10_00_failing ''t1'' (set_done True) signed_in) \<noteq> None"
    by simp
  moreover from completion_two_commits [OF s1 s2 s3 d, of at_10_00] ret f
  have t: "find (\<lambda>r. t_id r = ''t1'' \<and> t_user_id r = 1)
       (tasks (fst (update_task at_10_00 ''t1'' (set_done True) signed_in)))
     = Some (example_task\<lparr>t_done := True, t_completed_at := Some ''2024-01-15T10:00:00''\<rparr>)"
    and u: "\<exists>p yesterday. u_points example_user = Some p
       \<and> date_add_days (dt_date (now at_10_00)) (- 1) = Inr yesterday
       \<and> find (\<lambda>u. u_id u = 1)
              (users (fst (update_task at_10_00 ''t1'' (set_done True) signed_in)))
         = Some (example_user\<lparr>u_points :=
                    Some (p + 10 + priority_bonus (t_priority (example_task\<lparr>t_done := True\<rparr>))),
                  u_streak :=
                    new_streak (last_date_of at_10_00 (u_last_complete_date example_user))
                      yesterday (dt_date (now at_10_00)) (u_streak example_user),
                  u_last_complete_date := Some ''2024-01-15''\<rparr>)"
    by (simp_all add: k iso)
  moreover have "u_points example_user = Some 40" "u_streak example_user = Some 3"
    by (simp_all add: example_user_def)
  moreover have "priority_bonus (t_priority (example_task\<lparr>t_done := True\<rparr>)) = 5"
    by (simp add: example_task_def priority_bonus_def)
  moreover have "new_streak (Some 738899) 738899 (dt_date (now at_10_00)) (Some 3) = Some 4"
    by (simp add: new_streak_def)
  ultimately show ?thesis
    using val ret y l by auto
qed

text \<open>
  C6 as stated fails: the database fails at the update of the user's row, after the
  commit of the task; the call ends in \<open>OperationalError\<close>, the task is stored as
  done with its completion timestamp, and the user's points, streak and last
  completion date are as before.
\<close>

theorem completion_without_points_counterexample:
  "update_task at_10_00_failing ''t1'' (set_done True) signed_in
     = (signed_in\<lparr>tasks := [example_task\<lparr>t_done := True,
                               t_completed_at := Some ''2024-01-15T10:00:00''\<rparr>, other_task]\<rparr>,
        Some OperationalError)"
  by code_simp

section \<open>Where the task operations break their contract\<close>

text \<open>
  In the JSON fallback a repeated completion changes nothing: the completion
  timestamp is written only when the task was not done before.
\<close>

lemma set_keys_twice: "set_keys upd (set_keys upd t) = set_keys upd t"
  by (simp add: set_keys_def split: option.splits)

lemma set_keys_timestamp:
  "set_keys upd (t\<lparr>t_completed_at := x\<rparr>) = (set_keys upd t)\<lparr>t_completed_at := x\<rparr>"
  by (simp add: set_keys_def split: option.splits)

lemma json_completion_is_idempotent:
  assumes "upd_done upd = Some True"
  shows "update_task_json w2 task_id upd (update_task_json w1 task_id upd st)
         = update_task_json w1 task_id upd st"
proof -
  have "map (\<lambda>t. if t_id t = task_id
                  then (let prev_done = t_done t; t' = set_keys upd t
                        in if upd_done upd = Some True \<and> \<not> prev_done
                           then t'\<lparr>t_completed_at := Some (datetime_isoformat (now w2))\<rparr> else t')
                  else t)
          (map (\<lambda>t. if t_id t = task_id
                      then (let prev_done = t_done t; t' = set_keys upd t
                            in if upd_done upd = Some True \<and> \<not> prev_done
                               then t'\<lparr>t_completed_at := Some (datetime_isoformat (now w1))\<rparr>
                               else t')
                      else t) ts)
        = map (\<lambda>t. if t_id t = task_id
                      then (let prev_done = t_done t; t' = set_keys upd t
                            in if upd_done upd = Some True \<and> \<not> prev_done
                               then t'\<lparr>t_completed_at := Some (datetime_isoformat (now w1))\<rparr>
                               else t')
                      else t) ts" for ts :: "task list"
    using assms
    by (induction ts) (simp_all add: Let_def set_keys_done set_keys_twice set_keys_timestamp)
  then show ?thesis
    by (simp add: update_task_json_def)
qed

text \<open>
  C1 fails on the code: with a signed-in user, a second update with done = true on
  a task that is already done awards the points a second time (55, then 70) and
  overwrites the completion timestamp (10:00:00, then 10:05:00).
\<close>

theorem repeated_completion_awards_again:
  "fst (update_task at_10_00 ''t1'' (set_done True) signed_in)
     = signed_in\<lparr>users := [example_user\<lparr>u_points := Some 55, u_streak := Some 4,
                                          u_last_complete_date := Some ''2024-01-15''\<rparr>,
                             example_google_user],
                  tasks := [example_task\<lparr>t_done := True,
                                          t_completed_at := Some ''2024-01-15T10:00:00''\<rparr>,
                            other_task]\<rparr>
   \<and> fst (update_task at_10_05 ''t1'' (set_done True)
            (fst (update_task at_10_00 ''t1'' (set_done True) signed_in)))
     = signed_in\<lparr>users := [example_user\<lparr>u_points := Some 70, u_streak := Some 4,
                                          u_last_complete_date := Some ''2024-01-15''\<rparr>,
                             example_google_user],
                  tasks := [example_task\<lparr>t_done := True,
                                          t_completed_at := Some ''2024-01-15T10:05:00''\<rparr>,
                            other_task]\<rparr>"
  by code_simp

text \<open>
  On an id that is unknown or belongs to another user, \<open>delete_task\<close> changes
  nothing, \<open>update_task\<close> changes no task row, and without done = true it changes
  nothing at all; so does the JSON fallback on an unknown id.
\<close>

lemma delete_task_foreign:
  assumes "session_user st = Some ident"
    and "\<forall>r \<in> set (tasks st). t_id r = task_id \<longrightarrow> t_user_id r \<noteq> i_id ident"
  shows "delete_task task_id st = st"
proof -
  have "filter (\<lambda>r. \<not> (t_id r = task_id \<and> t_user_id r = i_id ident)) (tasks st) = tasks st"
    using assms(2) by (simp add: filter_id_conv)
  then show ?thesis
    using assms(1) by (simp add: delete_task_def)
qed

lemma update_tasks_table_foreign:
  assumes "\<forall>r \<in> set (tasks st). t_id r = task_id \<longrightarrow> t_user_id r \<noteq> uid"
  shows "update_tasks_table w uid task_id upd st = st"
proof -
  have "map (\<lambda>r. if t_id r = task_id \<and> t_user_id r = uid
                  then (if upd_done upd = Some True
                        then (set_keys upd r)\<lparr>t_completed_at := Some (datetime_isoformat (now w))\<rparr>
                        else set_keys upd r)
                  else r) (tasks st) = tasks st"
    by (rule map_idI) (use assms in auto)
  then show ?thesis
    by (simp add: update_tasks_table_def)
qed

lemma update_task_foreign:
  assumes "session_user st = Some ident"
    and "\<forall>r \<in> set (tasks st). t_id r = task_id \<longrightarrow> t_user_id r \<noteq> i_id ident"
  shows "tasks (fst (update_task w task_id upd st)) = tasks st"
    and "upd_done upd \<noteq> Some True \<Longrightarrow> fst (update_task w task_id upd st) = st"
  using assms(1) update_tasks_table_foreign [OF assms(2), of w upd]
  by (simp_all add: update_task_def update_task_db_def Let_def)

lemma update_task_json_unknown:
  assumes "\<forall>t \<in> set (json_tasks st). t_id t \<noteq> task_id"
  shows "update_task_json w task_id upd st = st"
proof -
  have "map (\<lambda>t. if t_id t = task_id
                  then (let prev_done = t_done t; t' = set_keys upd t
                        in if upd_done upd = Some True \<and> \<not> prev_done
                           then t'\<lparr>t_completed_at := Some (datetime_isoformat (now w))\<rparr> else t')
                  else t) (json_tasks st) = json_tasks st"
    by (rule map_idI) (use assms in auto)
  then show ?thesis
    by (simp add: update_task_json_def)
qed

text \<open>
  C2 fails on the code: an update with done = true on the task of another user, or
  on an id that does not exist, changes no task row but still runs the
  gamification block: user 1 gains 12 points (10 plus the bonus of the default
  priority Medium), the streak moves and the last completion date is set.
\<close>

theorem foreign_task_awards_points:
  "update_task at_10_00 ''t2'' (set_done True) signed_in
     = (signed_in\<lparr>users := [example_user\<lparr>u_points := Some 52, u_streak := Some 4,
                                           u_last_complete_date := Some ''2024-01-15''\<rparr>,
                              example_google_user]\<rparr>, None)
   \<and> update_task at_10_00 ''no-such-task'' (set_done True) signed_in
     = (signed_in\<lparr>users := [example_user\<lparr>u_points := Some 52, u_streak := Some 4,
                                           u_last_complete_date := Some ''2024-01-15''\<rparr>,
                              example_google_user]\<rparr>, None)"
  by code_simp

end
